theory Spec2Isabelle
  imports Complex_Main
begin

section \<open>Python values\<close>

text \<open>
  The three scripts exchange JSON documents: the usage payload of the remote API, the
  persisted \<^verbatim>\<open>config.json\<close> and the error dictionaries of \<^verbatim>\<open>get_usage.py\<close>.
  A JSON document loaded by \<^verbatim>\<open>json.load\<close> is a Python value: \<^verbatim>\<open>None\<close>, a bool,
  an int, a float, a str, a list or a dict with string keys. A float is kept as the
  rational number it denotes, or as one of the non-finite values that \<^verbatim>\<open>json.loads\<close>
  accepts. A dict is an association list in insertion order.
\<close>

datatype pyfloat = Finite rat | NaN | Infinity bool

datatype json =
    JNull
  | JBool bool
  | JInt int
  | JFloat pyfloat
  | JStr string
  | JArr "json list"
  | JObj "(string \<times> json) list"

datatype pyerr =
    TypeError
  | ValueError
  | AttributeError
  | OverflowError
  | JSONDecodeError
  | KeyError
  | IndexError
  | OtherError string

text \<open>Truth value of a Python object, as tested by \<^verbatim>\<open>if x:\<close> and \<^verbatim>\<open>not x\<close>.\<close>

fun py_truthy :: "json \<Rightarrow> bool" where
  "py_truthy JNull = False"
| "py_truthy (JBool b) = b"
| "py_truthy (JInt n) = (n \<noteq> 0)"
| "py_truthy (JFloat (Finite q)) = (q \<noteq> 0)"
| "py_truthy (JFloat NaN) = True"
| "py_truthy (JFloat (Infinity s)) = True"
| "py_truthy (JStr s) = (s \<noteq> [])"
| "py_truthy (JArr xs) = (xs \<noteq> [])"
| "py_truthy (JObj kvs) = (kvs \<noteq> [])"

text \<open>
  \<^verbatim>\<open>x.get(key, default)\<close>: only a dict has the method; on every other value the
  attribute lookup raises \<^verbatim>\<open>AttributeError\<close>.
\<close>

fun py_get :: "json \<Rightarrow> string \<Rightarrow> json \<Rightarrow> pyerr + json" where
  "py_get (JObj kvs) k d = Inr (case map_of kvs k of Some v \<Rightarrow> v | None \<Rightarrow> d)"
| "py_get _ k d = Inl AttributeError"

text \<open>
  \<^verbatim>\<open>d[key] = value\<close> on a dict: an existing key keeps its position, a new key goes
  to the end.
\<close>

fun dict_set :: "string \<Rightarrow> json \<Rightarrow> (string \<times> json) list \<Rightarrow> (string \<times> json) list" where
  "dict_set k v [] = [(k, v)]"
| "dict_set k v (p # ps) = (if fst p = k then (k, v) # ps else p # dict_set k v ps)"

text \<open>Truncation towards zero, the value of \<^verbatim>\<open>int(x)\<close> on a finite float.\<close>

definition trunc :: "rat \<Rightarrow> int" where
  "trunc q = (if 0 \<le> q then \<lfloor>q\<rfloor> else \<lceil>q\<rceil>)"

fun int_of_float :: "pyfloat \<Rightarrow> pyerr + int" where
  "int_of_float (Finite q) = Inr (trunc q)"
| "int_of_float NaN = Inl ValueError"
| "int_of_float (Infinity s) = Inl OverflowError"

text \<open>
  \<^verbatim>\<open>int(x)\<close>. The conversion of a string is the interpreter's own parser, taken as the
  parameter \<open>int_of_str\<close> (\<open>None\<close> where it raises \<^verbatim>\<open>ValueError\<close>).
\<close>

fun py_int :: "(string \<Rightarrow> int option) \<Rightarrow> json \<Rightarrow> pyerr + int" where
  "py_int int_of_str JNull = Inl TypeError"
| "py_int int_of_str (JBool b) = Inr (if b then 1 else 0)"
| "py_int int_of_str (JInt n) = Inr n"
| "py_int int_of_str (JFloat x) = int_of_float x"
| "py_int int_of_str (JStr s) = (case int_of_str s of Some n \<Rightarrow> Inr n | None \<Rightarrow> Inl ValueError)"
| "py_int int_of_str (JArr xs) = Inl TypeError"
| "py_int int_of_str (JObj kvs) = Inl TypeError"

section \<open>Python strings\<close>

text \<open>The characters \<^verbatim>\<open>str.strip()\<close> removes: those for which \<^verbatim>\<open>str.isspace\<close> holds.\<close>

definition isspace :: "char \<Rightarrow> bool" where
  "isspace c = (let n = (of_char c :: nat) in
     (9 \<le> n \<and> n \<le> 13) \<or> (28 \<le> n \<and> n \<le> 32) \<or> n = 133 \<or> n = 160)"

definition strip :: "string \<Rightarrow> string" where
  "strip s = rev (dropWhile isspace (rev (dropWhile isspace s)))"

definition startswith :: "string \<Rightarrow> string \<Rightarrow> bool" where
  "startswith s p = (take (length p) s = p)"

text \<open>\<^verbatim>\<open>p in s\<close> on two strings: \<open>p\<close> occurs in \<open>s\<close> as a contiguous run.\<close>

fun contains :: "string \<Rightarrow> string \<Rightarrow> bool" where
  "contains [] p = (p = [])"
| "contains (c # cs) p = (take (length p) (c # cs) = p \<or> contains cs p)"

text \<open>
  \<^verbatim>\<open>s.split("; ")\<close>: the pieces between the non-overlapping occurrences of the
  separator, found from the left. \<open>acc\<close> holds the current piece, reversed.
\<close>

fun split_semi :: "string \<Rightarrow> string \<Rightarrow> string list" where
  "split_semi acc [] = [rev acc]"
| "split_semi acc [c] = [rev (c # acc)]"
| "split_semi acc (c # d # cs) =
     (if c = CHR '';'' \<and> d = CHR '' '' then rev acc # split_semi [] cs
      else split_semi (c # acc) (d # cs))"

definition split_cookie_str :: "string \<Rightarrow> string list" where
  "split_cookie_str s = split_semi [] s"

text \<open>
  \<^verbatim>\<open>part.find("=")\<close> with the two slices around it: \<^verbatim>\<open>part[:idx]\<close> and
  \<^verbatim>\<open>part[idx + 1:]\<close>; \<open>None\<close> when \<^verbatim>\<open>find\<close> returns \<^verbatim>\<open>-1\<close>.
\<close>

definition find_eq :: "string \<Rightarrow> (string \<times> string) option" where
  "find_eq part =
     (if CHR ''='' \<in> set part
      then Some (takeWhile (\<lambda>c. c \<noteq> CHR ''='') part, tl (dropWhile (\<lambda>c. c \<noteq> CHR ''='') part))
      else None)"

text \<open>\<^verbatim>\<open>s.replace("Z", "+00:00")\<close>: every \<^verbatim>\<open>Z\<close> of the string is replaced.\<close>

definition replace_Z :: "string \<Rightarrow> string" where
  "replace_Z s = concat (map (\<lambda>c. if c = CHR ''Z'' then ''+00:00'' else [c]) s)"

section \<open>get\_usage.py: cookies and the request URL\<close>

text \<open>
  A cookie in the format of the browser-automation library: the dictionary with the keys
  \<^verbatim>\<open>name\<close>, \<^verbatim>\<open>value\<close>, \<^verbatim>\<open>domain\<close> and \<^verbatim>\<open>path\<close>.
\<close>

record cookie =
  cookie_name :: string
  cookie_value :: string
  cookie_domain :: string
  cookie_path :: string

text \<open>The body of the loop of \<^verbatim>\<open>parse_cookies\<close>: the cookies one segment adds.\<close>

definition cookie_of_part :: "string \<Rightarrow> string \<Rightarrow> cookie list" where
  "cookie_of_part dmn part0 =
     (let part = strip part0 in
      if part = [] then []
      else case find_eq part of
        None \<Rightarrow> []
      | Some (n, v) \<Rightarrow>
          if strip n = [] then []
          else [\<lparr>cookie_name = strip n, cookie_value = strip v,
                 cookie_domain = dmn, cookie_path = ''/''\<rparr>])"

definition parse_cookies :: "string \<Rightarrow> string \<Rightarrow> cookie list" where
  "parse_cookies cookie_str dmn =
     concat (map (cookie_of_part dmn) (split_cookie_str cookie_str))"

text \<open>
  The search for the organisation id in \<^verbatim>\<open>get_usage\<close>: the first segment whose
  stripped text starts with \<^verbatim>\<open>lastActiveOrg=\<close> decides, and the loop stops there.
  \<^verbatim>\<open>part.split("=", 1)[1]\<close> is the text after the first \<^verbatim>\<open>=\<close> of the unstripped
  segment; without any \<^verbatim>\<open>=\<close> the index would be out of range.
\<close>

fun find_org :: "string list \<Rightarrow> pyerr + string option" where
  "find_org [] = Inr None"
| "find_org (part # parts) =
     (if startswith (strip part) ''lastActiveOrg=''
      then (case find_eq part of
              None \<Rightarrow> Inl IndexError
            | Some (n, v) \<Rightarrow> Inr (Some (strip v)))
      else find_org parts)"

definition default_org_id :: string where
  "default_org_id = ''32321586-22bf-4e89-9007-8b6469448821''"

text \<open>
  Lines 92 to 99 of \<^verbatim>\<open>get_usage\<close>. \<^verbatim>\<open>not org_id\<close> holds for \<^verbatim>\<open>None\<close> and for the
  empty string, before the loop and after it.
\<close>

definition resolve_org_id :: "string option \<Rightarrow> string \<Rightarrow> pyerr + string" where
  "resolve_org_id org_id cookie_str =
     (case org_id of
        Some oid \<Rightarrow>
          if oid \<noteq> [] then Inr oid
          else (case find_org (split_cookie_str cookie_str) of
                  Inl e \<Rightarrow> Inl e
                | Inr None \<Rightarrow> Inr default_org_id
                | Inr (Some v) \<Rightarrow> Inr (if v = [] then default_org_id else v))
      | None \<Rightarrow>
          (case find_org (split_cookie_str cookie_str) of
             Inl e \<Rightarrow> Inl e
           | Inr None \<Rightarrow> Inr default_org_id
           | Inr (Some v) \<Rightarrow> Inr (if v = [] then default_org_id else v)))"

text \<open>The request URL of \<^verbatim>\<open>get_usage\<close>: its line 101, after the search above.\<close>

definition usage_url :: "string \<Rightarrow> string" where
  "usage_url org_id = ''https://claude.ai/api/organizations/'' @ org_id @ ''/usage''"

definition request_url :: "string option \<Rightarrow> string \<Rightarrow> pyerr + string" where
  "request_url org_id cookie_str =
     (case resolve_org_id org_id cookie_str of Inl e \<Rightarrow> Inl e | Inr oid \<Rightarrow> Inr (usage_url oid))"

section \<open>get\_usage.py: the fetch\<close>

text \<open>
  What the browser session does is outside the program. A session is either an exception
  raised while the browser, its context or the page is set up (these calls are outside the
  \<^verbatim>\<open>try\<close> block), or the responses delivered to \<^verbatim>\<open>handle_response\<close> while
  \<^verbatim>\<open>page.goto\<close> runs, followed by the way \<^verbatim>\<open>page.goto\<close> ends.
\<close>

record response =
  resp_url :: string
  resp_status :: nat
  resp_json :: "json option"

datatype goto_result =
    GotoResponse nat
  | GotoNone
  | PlaywrightTimeout
  | GotoException string

datatype session = SetupError string | Session "response list" goto_result

text \<open>
  \<^verbatim>\<open>handle_response\<close>: a response of the request URL with status 200 replaces
  \<^verbatim>\<open>response_data\<close> by its JSON body; a body that is not JSON (\<open>None\<close> here) is
  passed over.
\<close>

definition handle_response :: "string \<Rightarrow> json \<Rightarrow> response \<Rightarrow> json" where
  "handle_response url response_data r =
     (if resp_url r = url \<and> resp_status r = 200
      then (case resp_json r of Some j \<Rightarrow> j | None \<Rightarrow> response_data)
      else response_data)"

text \<open>\<^verbatim>\<open>str(n)\<close> of a natural number, as the f-string of the status code writes it.\<close>

fun str_nat :: "nat \<Rightarrow> string" where
  "str_nat n =
     (if n < 10 then [char_of (48 + n)]
      else str_nat (n div 10) @ [char_of (48 + n mod 10)])"

declare str_nat.simps [simp del]

text \<open>The \<^verbatim>\<open>try\<close> block around \<^verbatim>\<open>page.goto\<close>: the value of \<^verbatim>\<open>error_msg\<close>.\<close>

fun goto_error_msg :: "goto_result \<Rightarrow> json \<Rightarrow> string option" where
  "goto_error_msg (GotoResponse st) response_data =
     (if st = 401 then Some ''Cookie expired (401 Unauthorized)''
      else if st = 403 then Some ''Access denied (403 Forbidden). Try renewing org_id or cookies.''
      else if st \<noteq> 200 then Some (''API Error: '' @ str_nat st)
      else None)"
| "goto_error_msg GotoNone response_data =
     (if \<not> py_truthy response_data then Some ''No response received from API'' else None)"
| "goto_error_msg PlaywrightTimeout response_data = Some ''Timeout connecting to Claude''"
| "goto_error_msg (GotoException e) response_data =
     (if contains e ''Executable doesn't exist'' \<or> contains e ''playwright install''
      then Some ''Playwright browsers not installed. Run: playwright install chromium''
      else Some (''Error: '' @ e))"

text \<open>The last two statements of \<^verbatim>\<open>get_usage\<close>.\<close>

definition usage_result :: "string option \<Rightarrow> json \<Rightarrow> json" where
  "usage_result error_msg response_data =
     (case error_msg of
        Some m \<Rightarrow> if \<not> py_truthy response_data then JObj [(''error'', JStr m)] else response_data
      | None \<Rightarrow> response_data)"

text \<open>
  \<^verbatim>\<open>get_usage\<close>. \<open>playwright\<close> says whether the import succeeds, \<open>cookie_file\<close> is
  the text of the cookie file (\<open>None\<close> when the file does not exist) and \<open>cf_path\<close>
  its path, \<open>browser\<close> the session that a launch with the given mode, URL and cookies
  leads to. The result is the list of the lines written to the standard error stream and
  the returned value (\<open>JNull\<close> for \<^verbatim>\<open>None\<close>) or the exception that leaves the function.
\<close>

definition get_usage ::
  "bool \<Rightarrow> string option \<Rightarrow> string \<Rightarrow> (bool \<Rightarrow> string \<Rightarrow> cookie list \<Rightarrow> session) \<Rightarrow>
   string option \<Rightarrow> bool \<Rightarrow> bool \<Rightarrow> string list \<times> (pyerr + json)" where
  "get_usage playwright cookie_file cf_path browser org_id headless quiet =
     (if \<not> playwright then
        (if quiet then []
         else [''Error: Playwright required. Run: pip install playwright && playwright install chromium''],
         Inr JNull)
      else
        (case cookie_file of
           None \<Rightarrow>
             (if quiet then [] else [''Error: Cookie file not found: '' @ cf_path], Inr JNull)
         | Some text \<Rightarrow>
             (let cookie_str = strip text in
              if cookie_str = [] then
                (if quiet then [] else [''Error: Cookie file is empty''], Inr JNull)
              else
                (case request_url org_id cookie_str of
                   Inl e \<Rightarrow> ([], Inl e)
                 | Inr url \<Rightarrow>
                     (let cookies = parse_cookies cookie_str ''claude.ai''
                      in (case browser headless url cookies of
                            SetupError m \<Rightarrow> ([], Inl (OtherError m))
                          | Session rs g \<Rightarrow>
                              (let response_data = foldl (handle_response url) JNull rs;
                                   error_msg = goto_error_msg g response_data
                               in ([], Inr (usage_result error_msg response_data)))))))))"

text \<open>
  A finished process, as \<^verbatim>\<open>subprocess.run\<close> reports it with \<^verbatim>\<open>capture_output\<close>
  and \<^verbatim>\<open>text\<close>.
\<close>

record process =
  returncode :: nat
  stdout :: string
  stderr :: string

definition unlines :: "string list \<Rightarrow> string" where
  "unlines ls = concat (map (\<lambda>l. l @ [CHR 0x0A]) ls)"

text \<open>
  \<^verbatim>\<open>main\<close> of \<^verbatim>\<open>get_usage.py\<close> without \<^verbatim>\<open>--login\<close>, as a process.
  \<open>json_dumps\<close> is the library's serialiser with its \<^verbatim>\<open>indent\<close> argument and
  \<open>traceback\<close> the text the interpreter writes for an uncaught exception; the exit
  status of such a process is 1.
\<close>

definition get_usage_main ::
  "(nat option \<Rightarrow> json \<Rightarrow> string) \<Rightarrow> (pyerr \<Rightarrow> string) \<Rightarrow>
   bool \<Rightarrow> string option \<Rightarrow> string \<Rightarrow> (bool \<Rightarrow> string \<Rightarrow> cookie list \<Rightarrow> session) \<Rightarrow>
   string option \<Rightarrow> bool \<Rightarrow> bool \<Rightarrow> bool \<Rightarrow> process" where
  "get_usage_main json_dumps traceback playwright cookie_file cf_path browser
       org_id no_headless quiet raw =
     (case cookie_file of
        None \<Rightarrow>
          \<lparr>returncode = 1, stdout = [],
           stderr = unlines (if quiet then []
                             else [''Error: Cookie file not found: '' @ cf_path,
                                   ''Tip: Run with --login to capture cookies automatically.''])\<rparr>
      | Some text \<Rightarrow>
          let pre = (if quiet then [] else [''Fetching usage (this may take a moment)...'']);
              r = get_usage playwright cookie_file cf_path browser org_id (\<not> no_headless) quiet
          in (case snd r of
                Inl e \<Rightarrow>
                  \<lparr>returncode = 1, stdout = [], stderr = unlines (pre @ fst r) @ traceback e\<rparr>
              | Inr data \<Rightarrow>
                  (if data = JNull then
                     \<lparr>returncode = 1, stdout = [],
                      stderr = unlines (pre @ fst r @
                        (if quiet then []
                         else [''Error: Failed to fetch usage. Cookies may have expired.'']))\<rparr>
                   else
                     \<lparr>returncode = 0,
                      stdout = unlines [json_dumps (if raw then None else Some 2) data],
                      stderr = unlines (pre @ fst r)\<rparr>)))"

section \<open>claude\_usage\_indicator.py: the fetch wrapper\<close>

datatype run_result = Completed process | TimeoutExpired | RunError string

definition error_dict :: "string \<Rightarrow> json" where
  "error_dict m = JObj [(''error'', JStr m)]"

text \<open>
  \<^verbatim>\<open>_fetch_usage_from_api\<close>. \<open>cookie_exists\<close> and \<open>script_exists\<close> are the two
  file tests, \<open>run\<close> is how \<^verbatim>\<open>subprocess.run\<close> ends, \<open>json_loads\<close> the library's
  parser (\<open>None\<close> where it raises). The result \<open>JNull\<close> is Python's \<^verbatim>\<open>None\<close>.
\<close>

definition fetch_usage_from_api ::
  "(string \<Rightarrow> json option) \<Rightarrow> bool \<Rightarrow> bool \<Rightarrow> run_result \<Rightarrow> json" where
  "fetch_usage_from_api json_loads cookie_exists script_exists run =
     (if \<not> cookie_exists \<or> \<not> script_exists then JNull
      else
        (case run of
           TimeoutExpired \<Rightarrow> error_dict ''Timeout connecting to Claude''
         | RunError m \<Rightarrow> error_dict m
         | Completed p \<Rightarrow>
             (if returncode p = 0 \<and> strip (stdout p) \<noteq> [] then
                (case json_loads (stdout p) of
                   Some j \<Rightarrow> j
                 | None \<Rightarrow> error_dict ''Error parsing API JSON'')
              else
                (let stderr_msg =
                       (if stderr p \<noteq> [] then strip (stderr p) else ''Unknown error'')
                 in (case (if startswith stderr_msg ''{'' \<and> contains stderr_msg ''error''
                           then json_loads stderr_msg else None) of
                       Some j \<Rightarrow> j
                     | None \<Rightarrow> error_dict (''System error: '' @ take 50 stderr_msg @ ''...''))))))"

section \<open>claude\_usage\_indicator.py: the usage state\<close>

text \<open>
  \<^verbatim>\<open>self.usage_data\<close>: one entry per window, each with the usage figure and the
  reset time. The usage is a Python value: the parser stores an int, the fallback copies
  whatever the configuration file holds. The type \<open>'dt\<close> is \<^verbatim>\<open>datetime\<close>, whose
  functions \<^verbatim>\<open>fromisoformat\<close> (\<open>None\<close> where it raises \<^verbatim>\<open>ValueError\<close>) and
  \<^verbatim>\<open>isoformat\<close> are parameters of the model.
\<close>

record 'dt window =
  usage :: json
  reset :: "'dt option"

record 'dt usage_data =
  five_hour :: "'dt window"
  weekly :: "'dt window"
  last_update :: "'dt option"

definition init_usage_data :: "'dt usage_data" where
  "init_usage_data =
     \<lparr>five_hour = \<lparr>usage = JInt 0, reset = None\<rparr>,
      weekly = \<lparr>usage = JInt 0, reset = None\<rparr>,
      last_update = None\<rparr>"

text \<open>
  The \<^verbatim>\<open>try\<close> statement around \<^verbatim>\<open>datetime.fromisoformat(x.replace("Z", "+00:00"))\<close>,
  which both the parser and the fallback use. Only \<^verbatim>\<open>ValueError\<close> and
  \<^verbatim>\<open>TypeError\<close> are caught; a value that is not a string has no \<^verbatim>\<open>replace\<close>
  method, and the \<^verbatim>\<open>AttributeError\<close> leaves the statement. The state comes back
  with the exception, if any.
\<close>

fun set_reset ::
  "(string \<Rightarrow> 'dt option) \<Rightarrow> json \<Rightarrow> 'dt window \<Rightarrow> 'dt window \<times> pyerr option" where
  "set_reset fromisoformat (JStr s) w =
     (case fromisoformat (replace_Z s) of
        Some d \<Rightarrow> (w\<lparr>reset := Some d\<rparr>, None)
      | None \<Rightarrow> (w, None))"
| "set_reset fromisoformat v w = (w, Some AttributeError)"

text \<open>
  One of the two blocks of \<^verbatim>\<open>_parse_api_usage\<close>, which differ in the window only:
  \<open>v\<close> is the truthy value found under the window's key.
\<close>

definition parse_window ::
  "(string \<Rightarrow> int option) \<Rightarrow> (string \<Rightarrow> 'dt option) \<Rightarrow> json \<Rightarrow> 'dt window \<Rightarrow>
   'dt window \<times> pyerr option" where
  "parse_window int_of_str fromisoformat v w =
     (case py_get v ''utilization'' (JInt 0) of
        Inl e \<Rightarrow> (w, Some e)
      | Inr u \<Rightarrow>
          (case py_int int_of_str u of
             Inl e \<Rightarrow> (w, Some e)
           | Inr n \<Rightarrow>
               (let w1 = w\<lparr>usage := JInt n\<rparr> in
                case py_get v ''resets_at'' JNull of
                  Inl e \<Rightarrow> (w1, Some e)
                | Inr resets_at \<Rightarrow>
                    (if py_truthy resets_at then set_reset fromisoformat resets_at w1
                     else (w1, None)))))"

text \<open>\<^verbatim>\<open>_parse_api_usage\<close>: the five-hour window, then the weekly one.\<close>

definition parse_api_usage ::
  "(string \<Rightarrow> int option) \<Rightarrow> (string \<Rightarrow> 'dt option) \<Rightarrow> json \<Rightarrow> 'dt usage_data \<Rightarrow>
   'dt usage_data \<times> pyerr option" where
  "parse_api_usage int_of_str fromisoformat data u =
     (case py_get data ''five_hour'' JNull of
        Inl e \<Rightarrow> (u, Some e)
      | Inr fh \<Rightarrow>
          (let r1 = (if py_truthy fh then parse_window int_of_str fromisoformat fh (five_hour u)
                     else (five_hour u, None));
               u1 = u\<lparr>five_hour := fst r1\<rparr>
           in (case snd r1 of
                 Some e \<Rightarrow> (u1, Some e)
               | None \<Rightarrow>
                   (case py_get data ''seven_day'' JNull of
                      Inl e \<Rightarrow> (u1, Some e)
                    | Inr wk \<Rightarrow>
                        (let r2 = (if py_truthy wk
                                   then parse_window int_of_str fromisoformat wk (weekly u1)
                                   else (weekly u1, None))
                         in (u1\<lparr>weekly := fst r2\<rparr>, snd r2))))))"

section \<open>claude\_usage\_indicator.py: fetch\_usage\<close>

text \<open>
  The configuration file: absent, present with a text that \<^verbatim>\<open>json.load\<close> rejects, or
  present with a JSON document.
\<close>

datatype config_file = NoFile | BadJson | File json

text \<open>The branch of \<^verbatim>\<open>fetch_usage\<close> that ran: its cases 1, 2 and 3.\<close>

datatype source = Live | Cached | Default

text \<open>
  What a run of \<^verbatim>\<open>fetch_usage\<close> leaves: the usage state, the configuration file,
  the messages passed to \<^verbatim>\<open>show_error\<close> from the fallback branch, and either the
  branch that completed or the exception that the outer handler caught.
\<close>

record 'dt fetch_result =
  res_data :: "'dt usage_data"
  res_file :: config_file
  res_shown :: "json list"
  res_outcome :: "pyerr + source"

text \<open>\<^verbatim>\<open>"error" in x\<close>: key of a dict, element of a list, part of a string.\<close>

fun error_in :: "json \<Rightarrow> pyerr + bool" where
  "error_in (JObj kvs) = Inr (map_of kvs ''error'' \<noteq> None)"
| "error_in (JArr xs) = Inr (JStr ''error'' \<in> set xs)"
| "error_in (JStr s) = Inr (contains s ''error'')"
| "error_in _ = Inl TypeError"

text \<open>\<^verbatim>\<open>x["error"]\<close>.\<close>

fun index_error :: "json \<Rightarrow> pyerr + json" where
  "index_error (JObj kvs) = (case map_of kvs ''error'' of Some v \<Rightarrow> Inr v | None \<Rightarrow> Inl KeyError)"
| "index_error _ = Inl TypeError"

text \<open>The dictionary that case 1 writes.\<close>

definition live_config :: "('dt \<Rightarrow> string) \<Rightarrow> 'dt \<Rightarrow> 'dt usage_data \<Rightarrow> (string \<times> json) list" where
  "live_config isoformat now u =
     [(''five_hour_usage'', usage (five_hour u)),
      (''weekly_usage'', usage (weekly u)),
      (''last_auto_update'', JStr (isoformat now))]
     @ (case reset (five_hour u) of
          Some d \<Rightarrow> [(''five_hour_reset'', JStr (isoformat d))]
        | None \<Rightarrow> [])
     @ (case reset (weekly u) of
          Some d \<Rightarrow> [(''weekly_reset'', JStr (isoformat d))]
        | None \<Rightarrow> [])"

definition example_config :: "(string \<times> json) list" where
  "example_config =
     [(''note'', JStr ''Configure cookies.txt for automatic updates''),
      (''usage_percentage'', JInt 0),
      (''reset_hours'', JInt 5)]"

text \<open>
  Case 1 of \<^verbatim>\<open>fetch_usage\<close>. A \<^verbatim>\<open>datetime\<close> is always true, so a reset time is
  written exactly when it is not \<^verbatim>\<open>None\<close>.
\<close>

definition case_live ::
  "(string \<Rightarrow> int option) \<Rightarrow> (string \<Rightarrow> 'dt option) \<Rightarrow> ('dt \<Rightarrow> string) \<Rightarrow> 'dt \<Rightarrow>
   json \<Rightarrow> 'dt usage_data \<Rightarrow> config_file \<Rightarrow> 'dt fetch_result" where
  "case_live int_of_str fromisoformat isoformat now api_data u file =
     (let r = parse_api_usage int_of_str fromisoformat api_data u in
      case snd r of
        Some e \<Rightarrow> \<lparr>res_data = fst r, res_file = file, res_shown = [], res_outcome = Inl e\<rparr>
      | None \<Rightarrow>
          \<lparr>res_data = fst r, res_file = File (JObj (live_config isoformat now (fst r))),
           res_shown = [], res_outcome = Inr Live\<rparr>)"

text \<open>
  One of the two reset blocks of case 2: \<open>config\<close> is a dict here, \<open>k\<close> the key.
\<close>

definition cached_reset ::
  "(string \<Rightarrow> 'dt option) \<Rightarrow> (string \<times> json) list \<Rightarrow> string \<Rightarrow> 'dt window \<Rightarrow>
   'dt window \<times> pyerr option" where
  "cached_reset fromisoformat config k w =
     (case map_of config k of
        None \<Rightarrow> (w, None)
      | Some v \<Rightarrow> (if py_truthy v then set_reset fromisoformat v w else (w, None)))"

text \<open>
  Case 2 after \<^verbatim>\<open>json.load\<close>: the copies of the two usage figures, then the two
  reset blocks.
\<close>

definition read_config ::
  "(string \<Rightarrow> 'dt option) \<Rightarrow> json \<Rightarrow> 'dt usage_data \<Rightarrow> 'dt usage_data \<times> pyerr option" where
  "read_config fromisoformat config u =
     (case config of
        JObj kvs \<Rightarrow>
          (let fh_usage = (case map_of kvs ''five_hour_usage'' of
                             Some v \<Rightarrow> v
                           | None \<Rightarrow> (case map_of kvs ''usage_percentage'' of
                                         Some v \<Rightarrow> v
                                       | None \<Rightarrow> JInt 0));
               u1 = u\<lparr>five_hour := (five_hour u)\<lparr>usage := fh_usage\<rparr>\<rparr>;
               wk_usage = (case map_of kvs ''weekly_usage'' of Some v \<Rightarrow> v | None \<Rightarrow> JInt 0);
               u2 = u1\<lparr>weekly := (weekly u1)\<lparr>usage := wk_usage\<rparr>\<rparr>;
               r1 = cached_reset fromisoformat kvs ''five_hour_reset'' (five_hour u2);
               u3 = u2\<lparr>five_hour := fst r1\<rparr>
           in (case snd r1 of
                 Some e \<Rightarrow> (u3, Some e)
               | None \<Rightarrow>
                   (let r2 = cached_reset fromisoformat kvs ''weekly_reset'' (weekly u3)
                    in (u3\<lparr>weekly := fst r2\<rparr>, snd r2))))
      | _ \<Rightarrow> (u, Some AttributeError))"

text \<open>
  Case 2 of \<^verbatim>\<open>fetch_usage\<close>. The error of the fetch is shown first; the file is read
  and never written.
\<close>

definition case_cached ::
  "(string \<Rightarrow> 'dt option) \<Rightarrow> json \<Rightarrow> 'dt usage_data \<Rightarrow> config_file \<Rightarrow> 'dt fetch_result" where
  "case_cached fromisoformat api_data u file =
     (case (if py_truthy api_data
            then (case error_in api_data of
                    Inl e \<Rightarrow> Inl e
                  | Inr True \<Rightarrow> (case index_error api_data of Inl e \<Rightarrow> Inl e | Inr m \<Rightarrow> Inr [m])
                  | Inr False \<Rightarrow> Inr [])
            else Inr []) of
        Inl e \<Rightarrow> \<lparr>res_data = u, res_file = file, res_shown = [], res_outcome = Inl e\<rparr>
      | Inr shown \<Rightarrow>
          (case file of
             File config \<Rightarrow>
               (let r = read_config fromisoformat config u in
                \<lparr>res_data = fst r, res_file = file, res_shown = shown,
                 res_outcome = (case snd r of Some e \<Rightarrow> Inl e | None \<Rightarrow> Inr Cached)\<rparr>)
           | _ \<Rightarrow>
               \<lparr>res_data = u, res_file = file, res_shown = shown,
                res_outcome = Inl JSONDecodeError\<rparr>))"

text \<open>Case 3 of \<^verbatim>\<open>fetch_usage\<close>.\<close>

definition case_default :: "'dt usage_data \<Rightarrow> 'dt fetch_result" where
  "case_default u =
     \<lparr>res_data = u\<lparr>five_hour := (five_hour u)\<lparr>usage := JInt 0\<rparr>,
                    weekly := (weekly u)\<lparr>usage := JInt 0\<rparr>\<rparr>,
      res_file = File (JObj example_config),
      res_shown = [],
      res_outcome = Inr Default\<rparr>"

text \<open>
  \<^verbatim>\<open>fetch_usage\<close>, given the value \<open>api_data\<close> that \<^verbatim>\<open>_fetch_usage_from_api\<close>
  returned, the clock reading \<open>now\<close>, the usage state and the configuration file.
  The test of the first branch is \<^verbatim>\<open>api_data and "error" not in api_data\<close>.
\<close>

definition fetch_usage ::
  "(string \<Rightarrow> int option) \<Rightarrow> (string \<Rightarrow> 'dt option) \<Rightarrow> ('dt \<Rightarrow> string) \<Rightarrow> 'dt \<Rightarrow>
   json \<Rightarrow> 'dt usage_data \<Rightarrow> config_file \<Rightarrow> 'dt fetch_result" where
  "fetch_usage int_of_str fromisoformat isoformat now api_data u file =
     (case (if py_truthy api_data
            then (case error_in api_data of Inl e \<Rightarrow> Inl e | Inr b \<Rightarrow> Inr (\<not> b))
            else Inr False) of
        Inl e \<Rightarrow> \<lparr>res_data = u, res_file = file, res_shown = [], res_outcome = Inl e\<rparr>
      | Inr True \<Rightarrow> case_live int_of_str fromisoformat isoformat now api_data u file
      | Inr False \<Rightarrow>
          (if file \<noteq> NoFile then case_cached fromisoformat api_data u file
           else case_default u))"

section \<open>update\_claude\_usage.py\<close>

text \<open>
  \<^verbatim>\<open>fetch_and_update\<close>: the command line's fetch. The result is the returned bool and
  the configuration file, or the exception that leaves the function (the file is then as
  it was). Of the exceptions of the \<^verbatim>\<open>try\<close> block only the timeout and the JSON
  error are caught.
\<close>

definition fetch_and_update ::
  "(string \<Rightarrow> int option) \<Rightarrow> (string \<Rightarrow> json option) \<Rightarrow> ('dt \<Rightarrow> string) \<Rightarrow> 'dt \<Rightarrow>
   bool \<Rightarrow> run_result \<Rightarrow> config_file \<Rightarrow> pyerr + bool \<times> config_file" where
  "fetch_and_update int_of_str json_loads isoformat now cookie_exists run file =
     (if \<not> cookie_exists then Inr (False, file)
      else
        (case run of
           TimeoutExpired \<Rightarrow> Inr (False, file)
         | RunError m \<Rightarrow> Inl (OtherError m)
         | Completed p \<Rightarrow>
             (if returncode p \<noteq> 0 \<or> strip (stdout p) = [] then Inr (False, file)
              else
                (case json_loads (stdout p) of
                   None \<Rightarrow> Inr (False, file)
                 | Some data \<Rightarrow>
                     (case py_get data ''five_hour'' JNull of
                        Inl e \<Rightarrow> Inl e
                      | Inr fh \<Rightarrow>
                          (case (if py_truthy fh then Inr fh else py_get data ''seven_day'' JNull) of
                             Inl e \<Rightarrow> Inl e
                           | Inr usage_info \<Rightarrow>
                               (if \<not> py_truthy usage_info then Inr (False, file)
                                else
                                  (case py_get usage_info ''utilization'' (JInt 0) of
                                     Inl e \<Rightarrow> Inl e
                                   | Inr utilization \<Rightarrow>
                                       (case py_get usage_info ''resets_at'' JNull of
                                          Inl e \<Rightarrow> Inl e
                                        | Inr resets_at \<Rightarrow>
                                            (case (case file of
                                                     NoFile \<Rightarrow> Inr (JObj [])
                                                   | BadJson \<Rightarrow> Inl JSONDecodeError
                                                   | File j \<Rightarrow> Inr j) of
                                               Inl e \<Rightarrow> Inl e
                                             | Inr config \<Rightarrow>
                                                 (case py_int int_of_str utilization of
                                                    Inl e \<Rightarrow> Inl e
                                                  | Inr n \<Rightarrow>
                                                      (case config of
                                                         JObj kvs \<Rightarrow>
                                                           (let c1 = dict_set ''usage_percentage'' (JInt n) kvs;
                                                                c2 = dict_set ''last_auto_update'' (JStr (isoformat now)) c1;
                                                                c3 = (if py_truthy resets_at
                                                                      then dict_set ''reset_at'' resets_at c2
                                                                      else c2)
                                                            in Inr (True, File (JObj c3)))
                                                       | _ \<Rightarrow> Inl TypeError))))))))))))"

definition manual_default_config :: "(string \<times> json) list" where
  "manual_default_config =
     [(''note'', JStr ''Claude Usage Indicator configuration''),
      (''instructions'',
       JStr ''Update usage_percentage manually or use the update_claude_usage.py script''),
      (''reset_hours'', JInt 5)]"

text \<open>
  \<^verbatim>\<open>update_usage\<close>: the new configuration file, or the exception. An item
  assignment on a loaded value that is not a dict raises \<^verbatim>\<open>TypeError\<close>.
\<close>

definition update_usage ::
  "('dt \<Rightarrow> string) \<Rightarrow> 'dt \<Rightarrow> pyfloat \<Rightarrow> config_file \<Rightarrow> pyerr + config_file" where
  "update_usage isoformat now percentage file =
     (case (case file of
              NoFile \<Rightarrow> Inr (JObj manual_default_config)
            | BadJson \<Rightarrow> Inl JSONDecodeError
            | File j \<Rightarrow> Inr j) of
        Inl e \<Rightarrow> Inl e
      | Inr config \<Rightarrow>
          (case int_of_float percentage of
             Inl e \<Rightarrow> Inl e
           | Inr n \<Rightarrow>
               (case config of
                  JObj kvs \<Rightarrow>
                    Inr (File (JObj (dict_set ''last_manual_update'' (JStr (isoformat now))
                                       (dict_set ''usage_percentage'' (JInt n) kvs))))
                | _ \<Rightarrow> Inl TypeError)))"

text \<open>
  \<^verbatim>\<open>show_current\<close> prints and changes nothing; the model keeps the exception it may
  raise.
\<close>

definition show_current :: "config_file \<Rightarrow> pyerr option" where
  "show_current file =
     (case file of
        NoFile \<Rightarrow> None
      | BadJson \<Rightarrow> Some JSONDecodeError
      | File (JObj kvs) \<Rightarrow> None
      | File _ \<Rightarrow> Some AttributeError)"

text \<open>\<^verbatim>\<open>str.lower()\<close> on the characters below 256.\<close>

definition lower_char :: "char \<Rightarrow> char" where
  "lower_char c = (let n = (of_char c :: nat) in
     if (65 \<le> n \<and> n \<le> 90) \<or> (192 \<le> n \<and> n \<le> 222 \<and> n \<noteq> 215) then char_of (n + 32) else c)"

definition lower :: "string \<Rightarrow> string" where
  "lower s = map lower_char s"

text \<open>
  The exceptions that \<^verbatim>\<open>except ValueError\<close> catches: \<^verbatim>\<open>json.JSONDecodeError\<close> is
  a subclass of \<^verbatim>\<open>ValueError\<close>.
\<close>

fun is_value_error :: "pyerr \<Rightarrow> bool" where
  "is_value_error ValueError = True"
| "is_value_error JSONDecodeError = True"
| "is_value_error _ = False"

text \<open>
  \<^verbatim>\<open>main\<close> of \<^verbatim>\<open>update_claude_usage.py\<close>. \<open>argv\<close> is \<^verbatim>\<open>sys.argv[1:]\<close>,
  \<open>float_of_str\<close> the interpreter's \<^verbatim>\<open>float\<close> on a string (\<open>None\<close> where it raises
  \<^verbatim>\<open>ValueError\<close>). The conversion, the range test and the call of
  \<^verbatim>\<open>update_usage\<close> are inside one \<^verbatim>\<open>try\<close> statement whose handler catches
  \<^verbatim>\<open>ValueError\<close> and exits with status 1: a configuration file that is not JSON ends
  there, with the file as it was. The result is the exit status with the configuration
  file, or the uncaught exception.
\<close>

definition main ::
  "(string \<Rightarrow> int option) \<Rightarrow> (string \<Rightarrow> pyfloat option) \<Rightarrow> (string \<Rightarrow> json option) \<Rightarrow>
   ('dt \<Rightarrow> string) \<Rightarrow> 'dt \<Rightarrow> bool \<Rightarrow> run_result \<Rightarrow> string list \<Rightarrow> config_file \<Rightarrow>
   pyerr + nat \<times> config_file" where
  "main int_of_str float_of_str json_loads isoformat now cookie_exists run argv file =
     (case argv of
        [] \<Rightarrow> Inr (1, file)
      | a # _ \<Rightarrow>
          (if lower a = ''fetch'' then
             (case fetch_and_update int_of_str json_loads isoformat now cookie_exists run file of
                Inl e \<Rightarrow> Inl e
              | Inr (ok, file') \<Rightarrow> Inr (if ok then 0 else 1, file'))
           else if lower a = ''show'' then
             (case show_current file of Some e \<Rightarrow> Inl e | None \<Rightarrow> Inr (0, file))
           else
             (case float_of_str a of
                None \<Rightarrow> Inr (1, file)
              | Some percentage \<Rightarrow>
                  (if (case percentage of Finite q \<Rightarrow> 0 \<le> q \<and> q \<le> 100 | _ \<Rightarrow> False) then
                     (case update_usage isoformat now percentage file of
                        Inl e \<Rightarrow> (if is_value_error e then Inr (1, file) else Inl e)
                      | Inr file' \<Rightarrow> Inr (0, file'))
                   else Inr (1, file)))))"

section \<open>The organisation id and the request URL\<close>

lemma find_org_no_segment:
  "\<forall>p \<in> set parts. \<not> startswith (strip p) ''lastActiveOrg='' \<Longrightarrow> find_org parts = Inr None"
  by (induction parts) auto

lemma strip_decomp:
  "\<exists>a t. s = a @ strip s @ t \<and> (\<forall>c \<in> set a. isspace c) \<and> (\<forall>c \<in> set t. isspace c)"
proof -
  let ?m = "dropWhile isspace s"
  have a: "s = takeWhile isspace s @ ?m" by simp
  have "rev ?m = takeWhile isspace (rev ?m) @ dropWhile isspace (rev ?m)" by simp
  then have "?m = rev (dropWhile isspace (rev ?m)) @ rev (takeWhile isspace (rev ?m))"
    by (metis rev_append rev_rev_ident)
  then have m: "?m = strip s @ rev (takeWhile isspace (rev ?m))"
    by (simp add: strip_def)
  have t: "\<forall>c \<in> set (rev (takeWhile isspace (rev ?m))). isspace c"
    by (auto dest: set_takeWhileD)
  have "\<forall>c \<in> set (takeWhile isspace s). isspace c"
    by (auto dest: set_takeWhileD)
  with a m t show ?thesis by metis
qed

lemma strip_last: "strip s \<noteq> [] \<Longrightarrow> \<not> isspace (last (strip s))"
proof -
  assume ne: "strip s \<noteq> []"
  let ?d = "dropWhile isspace (rev (dropWhile isspace s))"
  from ne have "?d \<noteq> []" by (simp add: strip_def)
  then have "\<not> isspace (hd ?d)" by (rule hd_dropWhile)
  moreover have "last (strip s) = hd ?d" using \<open>?d \<noteq> []\<close> by (simp add: strip_def last_rev)
  ultimately show ?thesis by simp
qed

lemma strip_append_spaces:
  assumes t: "\<forall>c \<in> set t. isspace c" and r: "r = [] \<or> \<not> isspace (last r)"
  shows "strip (r @ t) = strip r"
proof (cases "r = []")
  case True
  have e: "dropWhile isspace t = []" using t by (induction t) auto
  show ?thesis by (simp add: strip_def True e)
next
  case False
  with r have "last r \<in> set r" "\<not> isspace (last r)" by auto
  then have d: "dropWhile isspace (r @ t) = dropWhile isspace r @ t"
    by (rule dropWhile_append1)
  have "dropWhile isspace (rev t @ rev (dropWhile isspace r)) = dropWhile isspace (rev (dropWhile isspace r))"
    using t by (intro dropWhile_append2) simp
  then show ?thesis by (simp add: strip_def d)
qed

lemma isspace_eq [simp]: "\<not> isspace CHR ''=''"
  by (simp add: isspace_def)

lemma find_eq_prefixed:
  assumes "startswith (strip p) ''lastActiveOrg=''"
  shows "\<exists>n v. find_eq p = Some (n, v) \<and> strip v = strip (drop (length ''lastActiveOrg='') (strip p))"
proof -
  obtain a t where p: "p = a @ strip p @ t" and a: "\<forall>c \<in> set a. isspace c" and t: "\<forall>c \<in> set t. isspace c"
    using strip_decomp by blast
  define r where "r = drop (length ''lastActiveOrg='') (strip p)"
  have "strip p = take (length ''lastActiveOrg='') (strip p) @ r" unfolding r_def by (rule append_take_drop_id [symmetric])
  moreover have "take (length ''lastActiveOrg='') (strip p) = ''lastActiveOrg=''" using assms unfolding startswith_def .
  ultimately have sp: "strip p = ''lastActiveOrg='' @ r" by simp
  have ne: "\<forall>c \<in> set a. c \<noteq> CHR ''=''" using a by auto
  have p': "p = a @ ''lastActiveOrg'' @ CHR ''='' # (r @ t)" using p sp by simp
  have tw: "takeWhile (\<lambda>c. c \<noteq> CHR ''='') (a @ ''lastActiveOrg'' @ CHR ''='' # (r @ t)) = a @ ''lastActiveOrg''"
    using ne by simp
  have dw: "dropWhile (\<lambda>c. c \<noteq> CHR ''='') (a @ ''lastActiveOrg'' @ CHR ''='' # (r @ t)) = CHR ''='' # (r @ t)"
    using ne by simp
  have mem: "CHR ''='' \<in> set p" by (subst p') simp
  have fe: "find_eq p = Some (a @ ''lastActiveOrg'', r @ t)"
    unfolding find_eq_def using mem by (subst (2 3) p') (simp only: tw dw if_True list.sel)
  have "r = [] \<or> \<not> isspace (last r)"
  proof (cases "r = []")
    case False
    then have "last r = last (strip p)" by (simp add: sp)
    moreover have "strip p \<noteq> []" by (simp add: sp)
    ultimately show ?thesis using strip_last by metis
  qed simp
  then have "strip (r @ t) = strip r" using t by (intro strip_append_spaces) auto
  with fe show ?thesis by (simp add: r_def)
qed


lemma find_org_first:
  assumes "\<forall>q \<in> set pre. \<not> startswith (strip q) ''lastActiveOrg=''"
    and "startswith (strip p) ''lastActiveOrg=''"
  shows "find_org (pre @ p # post) = Inr (Some (strip (drop (length ''lastActiveOrg='') (strip p))))"
  using assms(1)
proof (induction pre)
  case Nil
  obtain n v where "find_eq p = Some (n, v)" "strip v = strip (drop (length ''lastActiveOrg='') (strip p))"
    using find_eq_prefixed [OF assms(2)] by blast
  then show ?case using assms(2) by simp
next
  case (Cons q pre)
  then show ?case by simp
qed

lemma resolve_org_id_unsupplied:
  assumes "org_id = None \<or> org_id = Some []"
  shows "resolve_org_id org_id cs =
     (case find_org (split_cookie_str cs) of
        Inl e \<Rightarrow> Inl e
      | Inr None \<Rightarrow> Inr default_org_id
      | Inr (Some v) \<Rightarrow> Inr (if v = [] then default_org_id else v))"
  using assms by (auto simp: resolve_org_id_def)

text \<open>
  C10: when no organisation id is supplied (\<^verbatim>\<open>None\<close> or the empty string),
  \<^verbatim>\<open>get_usage\<close> takes it from the first segment of the cookie string whose stripped
  text starts with \<^verbatim>\<open>lastActiveOrg=\<close>: the id is the stripped text after that prefix
  (and the default id when that text is empty). For a cookie string without such a
  segment the request URL is built with the fixed default id
  \<^verbatim>\<open>32321586-22bf-4e89-9007-8b6469448821\<close>.
\<close>

theorem get_usage_org_id_from_cookie:
  assumes "org_id = None \<or> org_id = Some []"
  shows "((\<forall>p \<in> set (split_cookie_str cs). \<not> startswith (strip p) ''lastActiveOrg='') \<longrightarrow>
            request_url org_id cs =
              Inr ''https://claude.ai/api/organizations/32321586-22bf-4e89-9007-8b6469448821/usage'') \<and>
         (\<forall>pre p post.
            split_cookie_str cs = pre @ p # post \<and>
            (\<forall>q \<in> set pre. \<not> startswith (strip q) ''lastActiveOrg='') \<and>
            startswith (strip p) ''lastActiveOrg='' \<longrightarrow>
            request_url org_id cs =
              Inr (usage_url (let v = strip (drop (length ''lastActiveOrg='') (strip p))
                              in if v = [] then default_org_id else v)))"
proof (intro conjI allI impI)
  assume "\<forall>p \<in> set (split_cookie_str cs). \<not> startswith (strip p) ''lastActiveOrg=''"
  then have "find_org (split_cookie_str cs) = Inr None" by (rule find_org_no_segment)
  then show "request_url org_id cs =
      Inr ''https://claude.ai/api/organizations/32321586-22bf-4e89-9007-8b6469448821/usage''"
    by (simp add: request_url_def resolve_org_id_unsupplied [OF assms] usage_url_def default_org_id_def)
next
  fix pre p post
  assume h: "split_cookie_str cs = pre @ p # post \<and>
            (\<forall>q \<in> set pre. \<not> startswith (strip q) ''lastActiveOrg='') \<and>
            startswith (strip p) ''lastActiveOrg=''"
  then have "find_org (split_cookie_str cs) = Inr (Some (strip (drop (length ''lastActiveOrg='') (strip p))))"
    using find_org_first [of pre p post] by simp
  then show "request_url org_id cs =
              Inr (usage_url (let v = strip (drop (length ''lastActiveOrg='') (strip p))
                              in if v = [] then default_org_id else v))"
    by (simp add: request_url_def resolve_org_id_unsupplied [OF assms] Let_def)
qed

lemma split1: "split_cookie_str ''sessionKey=abc; theme=dark'' = [''sessionKey=abc'', ''theme=dark'']"
  by (simp add: split_cookie_str_def)

lemma split2: "split_cookie_str ''sessionKey=abc; lastActiveOrg=org-1'' = [''sessionKey=abc'', ''lastActiveOrg=org-1'']"
  by (simp add: split_cookie_str_def)

lemma strip1: "strip ''sessionKey=abc'' = ''sessionKey=abc''"
  by (simp add: strip_def isspace_def)

lemma strip2: "strip ''lastActiveOrg=org-1'' = ''lastActiveOrg=org-1''"
  by (simp add: strip_def isspace_def)

theorem get_usage_org_id_from_cookie_witness:
  "request_url None ''sessionKey=abc; theme=dark'' =
     Inr ''https://claude.ai/api/organizations/32321586-22bf-4e89-9007-8b6469448821/usage'' \<and>
   request_url None ''sessionKey=abc; lastActiveOrg=org-1'' =
     Inr ''https://claude.ai/api/organizations/org-1/usage''"
proof
  have "\<forall>p \<in> set (split_cookie_str ''sessionKey=abc; theme=dark''). \<not> startswith (strip p) ''lastActiveOrg=''"
    by (simp add: split1 strip_def isspace_def startswith_def)
  then show "request_url None ''sessionKey=abc; theme=dark'' =
     Inr ''https://claude.ai/api/organizations/32321586-22bf-4e89-9007-8b6469448821/usage''"
    using get_usage_org_id_from_cookie [of None "''sessionKey=abc; theme=dark''"] by blast
next
  have a: "split_cookie_str ''sessionKey=abc; lastActiveOrg=org-1'' = [''sessionKey=abc''] @ ''lastActiveOrg=org-1'' # []"
    by (simp add: split2)
  have b: "\<forall>q \<in> set [''sessionKey=abc'']. \<not> startswith (strip q) ''lastActiveOrg=''"
    by (simp add: strip1 startswith_def)
  have c: "startswith (strip ''lastActiveOrg=org-1'') ''lastActiveOrg=''"
    by (simp add: strip2 startswith_def)
  have "request_url None ''sessionKey=abc; lastActiveOrg=org-1'' =
      Inr (usage_url (let v = strip (drop (length ''lastActiveOrg='') (strip ''lastActiveOrg=org-1''))
                              in if v = [] then default_org_id else v))"
    using get_usage_org_id_from_cookie [of None "''sessionKey=abc; lastActiveOrg=org-1''"] a b c by blast
  then show "request_url None ''sessionKey=abc; lastActiveOrg=org-1'' =
     Inr ''https://claude.ai/api/organizations/org-1/usage''"
    by (simp add: strip2 usage_url_def strip_def isspace_def)
qed

section \<open>The manual update\<close>

lemma map_of_dict_set: "map_of (dict_set k v kvs) = (map_of kvs)(k \<mapsto> v)"
  by (induction kvs) (auto simp: fun_eq_iff)

lemma lower_45: "lower ''45'' = ''45''"
  by (simp add: lower_def lower_char_def)

lemma trunc_of_int: "trunc (of_int n) = n"
  by (simp add: trunc_def)

text \<open>
  C9: the command line with the argument \<^verbatim>\<open>45\<close>, on a configuration file that holds
  a JSON object, ends with status 0 and writes the object with \<^verbatim>\<open>usage_percentage\<close>
  set to 45 and \<^verbatim>\<open>last_manual_update\<close> set to the ISO text of the current clock
  reading; every other key, \<^verbatim>\<open>last_auto_update\<close> among them, keeps its value.
\<close>

theorem manual_update_45:
  assumes "float_of_str ''45'' = Some (Finite 45)"
    and "file = File (JObj cfg)"
  shows "let cfg' = dict_set ''last_manual_update'' (JStr (isoformat now))
                      (dict_set ''usage_percentage'' (JInt 45) cfg)
         in main int_of_str float_of_str json_loads isoformat now cookie_exists run [''45''] file
              = Inr (0, File (JObj cfg')) \<and>
            map_of cfg' ''usage_percentage'' = Some (JInt 45) \<and>
            map_of cfg' ''last_manual_update'' = Some (JStr (isoformat now)) \<and>
            (\<forall>k. k \<noteq> ''usage_percentage'' \<and> k \<noteq> ''last_manual_update'' \<longrightarrow>
                 map_of cfg' k = map_of cfg k)"
proof -
  let ?cfg' = "dict_set ''last_manual_update'' (JStr (isoformat now))
                 (dict_set ''usage_percentage'' (JInt 45) cfg)"
  have t: "trunc 45 = 45" using trunc_of_int [of 45] by simp
  have "update_usage isoformat now (Finite 45) file = Inr (File (JObj ?cfg'))"
    by (simp add: update_usage_def assms(2) t)
  then have "main int_of_str float_of_str json_loads isoformat now cookie_exists run [''45''] file
             = Inr (0, File (JObj ?cfg'))"
    by (simp add: main_def lower_45 assms(1))
  moreover have "map_of ?cfg' ''usage_percentage'' = Some (JInt 45)"
    by (simp add: map_of_dict_set)
  moreover have "map_of ?cfg' ''last_manual_update'' = Some (JStr (isoformat now))"
    by (simp add: map_of_dict_set)
  moreover have "\<forall>k. k \<noteq> ''usage_percentage'' \<and> k \<noteq> ''last_manual_update'' \<longrightarrow>
                map_of ?cfg' k = map_of cfg k"
    by (simp add: map_of_dict_set)
  ultimately show ?thesis unfolding Let_def by blast
qed

theorem manual_update_45_witness:
  "\<exists>cfg'. main (\<lambda>s. None) (\<lambda>s. if s = ''45'' then Some (Finite 45) else None) (\<lambda>s. None)
            (\<lambda>d. d) ''2025-03-01T10:00:00'' False TimeoutExpired [''45'']
            (File (JObj [(''usage_percentage'', JInt 10),
                         (''last_auto_update'', JStr ''2025-02-28T08:00:00'')]))
          = Inr (0, File (JObj cfg')) \<and>
          map_of cfg' ''usage_percentage'' = Some (JInt 45) \<and>
          map_of cfg' ''last_manual_update'' = Some (JStr ''2025-03-01T10:00:00'') \<and>
          map_of cfg' ''last_auto_update'' = Some (JStr ''2025-02-28T08:00:00'')"
proof -
  let ?f = "\<lambda>s. if s = ''45'' then Some (Finite 45) else None"
  let ?cfg = "[(''usage_percentage'', JInt 10), (''last_auto_update'', JStr ''2025-02-28T08:00:00'')]"
  let ?cfg' = "dict_set ''last_manual_update'' (JStr ''2025-03-01T10:00:00'')
                 (dict_set ''usage_percentage'' (JInt 45) ?cfg)"
  have h: "?f ''45'' = Some (Finite 45)" by simp
  have c: "main (\<lambda>s. None) ?f (\<lambda>s. None) (\<lambda>d. d) ''2025-03-01T10:00:00'' False TimeoutExpired
             [''45''] (File (JObj ?cfg)) = Inr (0, File (JObj ?cfg')) \<and>
           map_of ?cfg' ''usage_percentage'' = Some (JInt 45) \<and>
           map_of ?cfg' ''last_manual_update'' = Some (JStr ''2025-03-01T10:00:00'') \<and>
           (\<forall>k. k \<noteq> ''usage_percentage'' \<and> k \<noteq> ''last_manual_update'' \<longrightarrow>
                map_of ?cfg' k = map_of ?cfg k)"
    using manual_update_45 [of ?f "File (JObj ?cfg)" ?cfg "\<lambda>d. d" "''2025-03-01T10:00:00''"
        "\<lambda>s. None" "\<lambda>s. None" False TimeoutExpired, OF h refl]
    unfolding Let_def by blast
  then have "map_of ?cfg' ''last_auto_update'' = map_of ?cfg ''last_auto_update''" by simp
  then have "map_of ?cfg' ''last_auto_update'' = Some (JStr ''2025-02-28T08:00:00'')" by simp
  with c show ?thesis by blast
qed

section \<open>The fallback branches of fetch\_usage\<close>

lemma failure_test:
  assumes "map_of e ''error'' = Some m"
  shows "py_truthy (JObj e)" "error_in (JObj e) = Inr True" "index_error (JObj e) = Inr m"
  using assms by auto

lemma set_reset_usage: "usage (fst (set_reset fi v w)) = usage w"
  by (cases v) (auto split: option.splits)

lemma cached_reset_usage: "usage (fst (cached_reset fi kvs k w)) = usage w"
  by (simp add: cached_reset_def set_reset_usage split: option.splits)

lemma set_reset_outcome: "snd (set_reset fi v w) = None \<or> snd (set_reset fi v w) = Some AttributeError"
  by (cases v) (auto split: option.splits)

lemma cached_reset_outcome:
  "snd (cached_reset fi kvs k w) = None \<or> snd (cached_reset fi kvs k w) = Some AttributeError"
  using set_reset_outcome by (auto simp: cached_reset_def split: option.splits)

lemma cached_reset_ok:
  assumes "\<forall>v. map_of kvs k = Some v \<longrightarrow> \<not> py_truthy v \<or> (\<exists>s. v = JStr s)"
  shows "snd (cached_reset fi kvs k w) = None"
  using assms by (auto simp: cached_reset_def split: option.splits)

lemma read_config_usage:
  "usage (five_hour (fst (read_config fi (JObj cfg) u))) =
     (case map_of cfg ''five_hour_usage'' of
        Some v \<Rightarrow> v
      | None \<Rightarrow> (case map_of cfg ''usage_percentage'' of Some v \<Rightarrow> v | None \<Rightarrow> JInt 0))"
  "usage (weekly (fst (read_config fi (JObj cfg) u))) =
     (case map_of cfg ''weekly_usage'' of Some v \<Rightarrow> v | None \<Rightarrow> JInt 0)"
  by (simp_all add: read_config_def Let_def cached_reset_usage split: option.splits)

lemma cached_reset_raises:
  "snd (cached_reset fi kvs k w) = Some x \<Longrightarrow> x = AttributeError"
  using cached_reset_outcome [of fi kvs k w] by auto

lemma read_config_raises:
  "snd (read_config fi (JObj cfg) u) = Some x \<Longrightarrow> x = AttributeError"
  by (auto simp: read_config_def Let_def split: option.splits dest: cached_reset_raises)

lemma read_config_outcome:
  "snd (read_config fi (JObj cfg) u) = None \<or> snd (read_config fi (JObj cfg) u) = Some AttributeError"
  using read_config_raises [of fi cfg u] by (cases "snd (read_config fi (JObj cfg) u)") auto

lemma read_config_ok:
  assumes "\<forall>k \<in> {''five_hour_reset'', ''weekly_reset''}. \<forall>v. map_of cfg k = Some v \<longrightarrow>
             \<not> py_truthy v \<or> (\<exists>s. v = JStr s)"
  shows "snd (read_config fi (JObj cfg) u) = None"
proof -
  have a: "\<And>w. snd (cached_reset fi cfg ''five_hour_reset'' w) = None"
    using assms by (intro cached_reset_ok) simp
  have b: "\<And>w. snd (cached_reset fi cfg ''weekly_reset'' w) = None"
    using assms by (intro cached_reset_ok) simp
  show ?thesis by (simp add: read_config_def Let_def a b)
qed

lemma fetch_usage_cached_lemma:
  assumes "map_of e ''error'' = Some msg"
  shows "let r = fetch_usage int_of_str fromisoformat isoformat now (JObj e) u (File (JObj cfg)) in
           res_file r = File (JObj cfg) \<and>
           usage (five_hour (res_data r)) =
             (case map_of cfg ''five_hour_usage'' of
                Some v \<Rightarrow> v
              | None \<Rightarrow> (case map_of cfg ''usage_percentage'' of Some v \<Rightarrow> v | None \<Rightarrow> JInt 0)) \<and>
           usage (weekly (res_data r)) =
             (case map_of cfg ''weekly_usage'' of Some v \<Rightarrow> v | None \<Rightarrow> JInt 0) \<and>
           res_shown r = [msg] \<and>
           (res_outcome r = Inr Cached \<or> res_outcome r = Inl AttributeError) \<and>
           ((\<forall>k \<in> {''five_hour_reset'', ''weekly_reset''}. \<forall>v. map_of cfg k = Some v \<longrightarrow>
                \<not> py_truthy v \<or> (\<exists>s. v = JStr s)) \<longrightarrow> res_outcome r = Inr Cached)"
proof -
  let ?r = "fetch_usage int_of_str fromisoformat isoformat now (JObj e) u (File (JObj cfg))"
  let ?c = "read_config fromisoformat (JObj cfg) u"
  have r: "?r = \<lparr>res_data = fst ?c, res_file = File (JObj cfg), res_shown = [msg],
                 res_outcome = (case snd ?c of Some e \<Rightarrow> Inl e | None \<Rightarrow> Inr Cached)\<rparr>"
    using failure_test [OF assms] by (simp add: fetch_usage_def case_cached_def Let_def)
  have 1: "res_file ?r = File (JObj cfg)" by (simp add: r)
  have 2: "usage (five_hour (res_data ?r)) =
             (case map_of cfg ''five_hour_usage'' of
                Some v \<Rightarrow> v
              | None \<Rightarrow> (case map_of cfg ''usage_percentage'' of Some v \<Rightarrow> v | None \<Rightarrow> JInt 0))"
    by (simp only: r fetch_result.simps read_config_usage)
  have 3: "usage (weekly (res_data ?r)) =
             (case map_of cfg ''weekly_usage'' of Some v \<Rightarrow> v | None \<Rightarrow> JInt 0)"
    by (simp only: r fetch_result.simps read_config_usage)
  have 4: "res_shown ?r = [msg]" by (simp add: r)
  have 5: "res_outcome ?r = Inr Cached \<or> res_outcome ?r = Inl AttributeError"
    using read_config_outcome [of fromisoformat cfg u] by (auto simp: r)
  have 6: "(\<forall>k \<in> {''five_hour_reset'', ''weekly_reset''}. \<forall>v. map_of cfg k = Some v \<longrightarrow>
                \<not> py_truthy v \<or> (\<exists>s. v = JStr s)) \<longrightarrow> res_outcome ?r = Inr Cached"
    using read_config_ok [of cfg fromisoformat u] by (auto simp: r)
  show ?thesis unfolding Let_def using 1 2 3 4 5 6 by blast
qed


text \<open>
  C1: when the fetch failed (\<open>api_data\<close> is a dict with the key \<^verbatim>\<open>error\<close>) and the
  configuration file holds a JSON object, \<^verbatim>\<open>fetch_usage\<close> leaves the file as it is,
  shows the failure message, and copies the two usage figures as they are:
  \<^verbatim>\<open>five_hour_usage\<close>, else \<^verbatim>\<open>usage_percentage\<close>, else 0, and
  \<^verbatim>\<open>weekly_usage\<close>, else 0. The run completes as case 2 whenever the two reset keys
  of the file are absent, falsy or strings; otherwise the figures are still copied and the
  run ends in the outer handler with \<^verbatim>\<open>AttributeError\<close>.
\<close>

theorem fetch_usage_failure_cached:
  assumes "map_of e ''error'' = Some msg"
  shows "let r = fetch_usage int_of_str fromisoformat isoformat now (JObj e) u (File (JObj cfg)) in
           res_file r = File (JObj cfg) \<and>
           usage (five_hour (res_data r)) =
             (case map_of cfg ''five_hour_usage'' of
                Some v \<Rightarrow> v
              | None \<Rightarrow> (case map_of cfg ''usage_percentage'' of Some v \<Rightarrow> v | None \<Rightarrow> JInt 0)) \<and>
           usage (weekly (res_data r)) =
             (case map_of cfg ''weekly_usage'' of Some v \<Rightarrow> v | None \<Rightarrow> JInt 0) \<and>
           res_shown r = [msg] \<and>
           (res_outcome r = Inr Cached \<or> res_outcome r = Inl AttributeError) \<and>
           ((\<forall>k \<in> {''five_hour_reset'', ''weekly_reset''}. \<forall>v. map_of cfg k = Some v \<longrightarrow>
                \<not> py_truthy v \<or> (\<exists>s. v = JStr s)) \<longrightarrow> res_outcome r = Inr Cached)"
  using assms by (rule fetch_usage_cached_lemma)

theorem fetch_usage_failure_cached_witness:
  "let cfg = [(''usage_percentage'', JInt 42),
              (''five_hour_reset'', JStr ''2025-03-01T15:00:00+00:00'')];
       r = fetch_usage (\<lambda>s. None) (\<lambda>s. None) (\<lambda>d::nat. []) 0
             (JObj [(''error'', JStr ''Timeout connecting to Claude'')])
             init_usage_data (File (JObj cfg))
   in res_file r = File (JObj cfg) \<and>
      usage (five_hour (res_data r)) = JInt 42 \<and>
      usage (weekly (res_data r)) = JInt 0 \<and>
      res_shown r = [JStr ''Timeout connecting to Claude''] \<and>
      res_outcome r = Inr Cached"
proof -
  let ?e = "[(''error'', JStr ''Timeout connecting to Claude'')]"
  let ?cfg = "[(''usage_percentage'', JInt 42),
               (''five_hour_reset'', JStr ''2025-03-01T15:00:00+00:00'')]"
  have h: "map_of ?e ''error'' = Some (JStr ''Timeout connecting to Claude'')" by simp
  have k: "\<forall>k \<in> {''five_hour_reset'', ''weekly_reset''}. \<forall>v. map_of ?cfg k = Some v \<longrightarrow>
                \<not> py_truthy v \<or> (\<exists>s. v = JStr s)"
    by simp
  show ?thesis
    using fetch_usage_failure_cached [OF h, of "\<lambda>s. None" "\<lambda>s. None" "\<lambda>d::nat. []" 0
        init_usage_data ?cfg] k
    unfolding Let_def by simp
qed

lemma placeholder_resets:
  "\<forall>k \<in> {''five_hour_reset'', ''weekly_reset''}. \<forall>v. map_of example_config k = Some v \<longrightarrow>
      \<not> py_truthy v \<or> (\<exists>s. v = JStr s)"
  by (simp add: example_config_def)

text \<open>
  C2: when the fetch failed or was not attempted (\<open>api_data\<close> is \<^verbatim>\<open>None\<close>) and no
  configuration file exists, \<^verbatim>\<open>fetch_usage\<close> completes as case 3 with both usage
  figures 0 and writes the placeholder; with that file every later run whose fetch failed
  completes as case 2, reads 0 for both figures and leaves the file as it is.
\<close>

theorem fetch_usage_first_run:
  assumes "api_data = JNull \<or> (\<exists>e msg. api_data = JObj e \<and> map_of e ''error'' = Some msg)"
  shows "let r = fetch_usage int_of_str fromisoformat isoformat now api_data u NoFile in
           res_outcome r = Inr Default \<and>
           usage (five_hour (res_data r)) = JInt 0 \<and>
           usage (weekly (res_data r)) = JInt 0 \<and>
           res_file r = File (JObj example_config) \<and>
           (\<forall>e' msg' now' u'. map_of e' ''error'' = Some msg' \<longrightarrow>
              (let r' = fetch_usage int_of_str fromisoformat isoformat now' (JObj e') u' (res_file r)
               in res_outcome r' = Inr Cached \<and>
                  usage (five_hour (res_data r')) = JInt 0 \<and>
                  usage (weekly (res_data r')) = JInt 0 \<and>
                  res_file r' = res_file r))"
proof -
  let ?r = "fetch_usage int_of_str fromisoformat isoformat now api_data u NoFile"
  have r: "?r = case_default u"
    using assms by (auto simp: fetch_usage_def)
  have 1: "res_outcome ?r = Inr Default" "usage (five_hour (res_data ?r)) = JInt 0"
    "usage (weekly (res_data ?r)) = JInt 0" "res_file ?r = File (JObj example_config)"
    by (simp_all add: r case_default_def)
  have 2: "let r' = fetch_usage int_of_str fromisoformat isoformat now' (JObj e') u' (res_file ?r)
           in res_outcome r' = Inr Cached \<and>
              usage (five_hour (res_data r')) = JInt 0 \<and>
              usage (weekly (res_data r')) = JInt 0 \<and>
              res_file r' = res_file ?r"
    if "map_of e' ''error'' = Some msg'" for e' msg' now' u'
    using fetch_usage_cached_lemma [OF that, of int_of_str fromisoformat isoformat now' u' example_config]
      placeholder_resets
    unfolding Let_def 1 by (simp add: example_config_def)
  show ?thesis unfolding Let_def using 1 2 unfolding Let_def by blast
qed


theorem fetch_usage_first_run_witness:
  "let r = fetch_usage (\<lambda>s. None) (\<lambda>s. None) (\<lambda>d::nat. []) 0 JNull init_usage_data NoFile;
       r' = fetch_usage (\<lambda>s. None) (\<lambda>s. None) (\<lambda>d::nat. []) 5
              (JObj [(''error'', JStr ''Cookie expired (401 Unauthorized)'')])
              (res_data r) (res_file r)
   in res_outcome r = Inr Default \<and>
      usage (five_hour (res_data r)) = JInt 0 \<and>
      usage (weekly (res_data r)) = JInt 0 \<and>
      res_file r = File (JObj example_config) \<and>
      res_outcome r' = Inr Cached \<and>
      res_file r' = File (JObj example_config)"
proof -
  let ?e = "[(''error'', JStr ''Cookie expired (401 Unauthorized)'')]"
  have h: "JNull = JNull \<or> (\<exists>e msg. JNull = JObj e \<and> map_of e ''error'' = Some msg)" by simp
  have m: "map_of ?e ''error'' = Some (JStr ''Cookie expired (401 Unauthorized)'')" by simp
  show ?thesis
    using fetch_usage_first_run [OF h, of "\<lambda>s. None" "\<lambda>s. None" "\<lambda>d::nat. []" 0 init_usage_data] m
    unfolding Let_def by metis
qed

section \<open>The parser of the payload\<close>

text \<open>The usage figure that one block of the parser stores, and when the block raises.\<close>

lemma parse_window_usage:
  assumes "py_int ios (case map_of kvs ''utilization'' of Some v \<Rightarrow> v | None \<Rightarrow> JInt 0) = Inr n"
  shows "usage (fst (parse_window ios fi (JObj kvs) w)) = JInt n"
  using assms by (simp add: parse_window_def Let_def set_reset_usage)

lemma parse_window_raises:
  assumes "py_int ios (case map_of kvs ''utilization'' of Some v \<Rightarrow> v | None \<Rightarrow> JInt 0) = Inl e"
  shows "parse_window ios fi (JObj kvs) w = (w, Some e)"
  using assms by (simp add: parse_window_def)

text \<open>
  The parser on a dict, as its two blocks: each block runs on the value found under its
  key when that value is truthy, and the weekly block is reached only when the five-hour
  block raised nothing.
\<close>

lemma parse_api_usage_blocks:
  "parse_api_usage ios fi (JObj d) u =
     (let b1 = (case map_of d ''five_hour'' of
                  None \<Rightarrow> (five_hour u, None)
                | Some v \<Rightarrow> if py_truthy v then parse_window ios fi v (five_hour u)
                            else (five_hour u, None));
          b2 = (case map_of d ''seven_day'' of
                  None \<Rightarrow> (weekly u, None)
                | Some v \<Rightarrow> if py_truthy v then parse_window ios fi v (weekly u)
                            else (weekly u, None))
      in case snd b1 of
           Some e \<Rightarrow> (u\<lparr>five_hour := fst b1\<rparr>, Some e)
         | None \<Rightarrow> (u\<lparr>five_hour := fst b1, weekly := fst b2\<rparr>, snd b2))"
  by (simp add: parse_api_usage_def Let_def split: option.splits)

lemma success_test:
  assumes "d \<noteq> []" "map_of d ''error'' = None"
  shows "py_truthy (JObj d)" "error_in (JObj d) = Inr False"
  using assms by auto

lemma fetch_usage_parse_raises:
  assumes "d \<noteq> []" "map_of d ''error'' = None"
    and "snd (parse_api_usage ios fi (JObj d) u) = Some e"
  shows "fetch_usage ios fi isof now (JObj d) u cfile =
           \<lparr>res_data = fst (parse_api_usage ios fi (JObj d) u), res_file = cfile,
            res_shown = [], res_outcome = Inl e\<rparr>"
  using success_test [OF assms(1,2)] assms(3)
  by (simp add: fetch_usage_def case_live_def Let_def)

text \<open>
  C3 (amended): for a payload that is a dict, a window whose value is a non-empty object
  gets as usage \<^verbatim>\<open>int\<close> of its \<^verbatim>\<open>utilization\<close> field, and 0 when the field is
  absent, with no clamping: an int of any size is stored as it is. For the weekly window
  this holds when the five-hour block raised nothing; when it raised, the weekly window is
  never read and keeps its figure. A utilization that \<^verbatim>\<open>int\<close> rejects, in a
  window that is read, is not replaced by 0: the exception leaves the parser, the window
  keeps its entry, and on a payload without the key \<^verbatim>\<open>error\<close> \<^verbatim>\<open>fetch_usage\<close>
  ends in its outer handler with that exception and the configuration file as it was. A window that is absent or falsy is
  skipped and keeps its entry.
\<close>

theorem parse_api_usage_utilization:
  "(let r = parse_api_usage int_of_str fromisoformat (JObj d) u;
        fr = fetch_usage int_of_str fromisoformat isoformat now (JObj d) u cfile;
        fh_util = (case map_of fh ''utilization'' of Some v \<Rightarrow> v | None \<Rightarrow> JInt 0);
        wk_util = (case map_of wk ''utilization'' of Some v \<Rightarrow> v | None \<Rightarrow> JInt 0);
        five_hour_ok = (case map_of d ''five_hour'' of
                          None \<Rightarrow> True
                        | Some v \<Rightarrow> \<not> py_truthy v \<or>
                            snd (parse_window int_of_str fromisoformat v (five_hour u)) = None)
    in (map_of d ''five_hour'' = Some (JObj fh) \<and> fh \<noteq> [] \<longrightarrow>
          (\<forall>a. py_int int_of_str fh_util = Inr a \<longrightarrow> usage (five_hour (fst r)) = JInt a) \<and>
          (map_of fh ''utilization'' = None \<longrightarrow> usage (five_hour (fst r)) = JInt 0) \<and>
          (\<forall>n. map_of fh ''utilization'' = Some (JInt n) \<longrightarrow> usage (five_hour (fst r)) = JInt n) \<and>
          (\<forall>e. py_int int_of_str fh_util = Inl e \<longrightarrow>
               r = (u, Some e) \<and>
               (map_of d ''error'' = None \<longrightarrow>
                  fr = \<lparr>res_data = u, res_file = cfile, res_shown = [], res_outcome = Inl e\<rparr>))) \<and>
       (map_of d ''seven_day'' = Some (JObj wk) \<and> wk \<noteq> [] \<and> five_hour_ok \<longrightarrow>
          (\<forall>b. py_int int_of_str wk_util = Inr b \<longrightarrow> usage (weekly (fst r)) = JInt b) \<and>
          (map_of wk ''utilization'' = None \<longrightarrow> usage (weekly (fst r)) = JInt 0) \<and>
          (\<forall>n. map_of wk ''utilization'' = Some (JInt n) \<longrightarrow> usage (weekly (fst r)) = JInt n) \<and>
          (\<forall>e. py_int int_of_str wk_util = Inl e \<longrightarrow>
               snd r = Some e \<and> weekly (fst r) = weekly u \<and>
               (map_of d ''error'' = None \<longrightarrow>
                  res_outcome fr = Inl e \<and> res_file fr = cfile \<and>
                  weekly (res_data fr) = weekly u))) \<and>
       (\<not> five_hour_ok \<longrightarrow> weekly (fst r) = weekly u) \<and>
       (map_of d ''five_hour'' = None \<or> (\<exists>v. map_of d ''five_hour'' = Some v \<and> \<not> py_truthy v) \<longrightarrow>
          five_hour (fst r) = five_hour u) \<and>
       (map_of d ''seven_day'' = None \<or> (\<exists>v. map_of d ''seven_day'' = Some v \<and> \<not> py_truthy v) \<longrightarrow>
          weekly (fst r) = weekly u))"
proof -
  let ?r = "parse_api_usage int_of_str fromisoformat (JObj d) u"
  let ?fr = "fetch_usage int_of_str fromisoformat isoformat now (JObj d) u cfile"
  let ?fu = "case map_of fh ''utilization'' of Some v \<Rightarrow> v | None \<Rightarrow> JInt 0"
  let ?wu = "case map_of wk ''utilization'' of Some v \<Rightarrow> v | None \<Rightarrow> JInt 0"
  let ?ok = "case map_of d ''five_hour'' of
               None \<Rightarrow> True
             | Some v \<Rightarrow> \<not> py_truthy v \<or>
                 snd (parse_window int_of_str fromisoformat v (five_hour u)) = None"
  let ?b1 = "case map_of d ''five_hour'' of
               None \<Rightarrow> (five_hour u, None)
             | Some v \<Rightarrow> if py_truthy v then parse_window int_of_str fromisoformat v (five_hour u)
                         else (five_hour u, None)"
  have ok: "?ok \<longleftrightarrow> snd ?b1 = None" by (simp split: option.splits)
  have A: "usage (five_hour (fst ?r)) = JInt a"
    if "map_of d ''five_hour'' = Some (JObj fh) \<and> fh \<noteq> []" "py_int int_of_str ?fu = Inr a" for a
    using that(1) parse_window_usage [OF that(2), of fromisoformat "five_hour u"]
    by (simp add: parse_api_usage_blocks Let_def split: option.splits)
  have A0: "usage (five_hour (fst ?r)) = JInt 0"
    if "map_of d ''five_hour'' = Some (JObj fh) \<and> fh \<noteq> []" "map_of fh ''utilization'' = None"
    using A [OF that(1), of 0] that(2) by simp
  have An: "usage (five_hour (fst ?r)) = JInt n"
    if "map_of d ''five_hour'' = Some (JObj fh) \<and> fh \<noteq> []" "map_of fh ''utilization'' = Some (JInt n)" for n
    using A [OF that(1), of n] that(2) by simp
  have B: "?r = (u, Some e)"
    if "map_of d ''five_hour'' = Some (JObj fh) \<and> fh \<noteq> []" "py_int int_of_str ?fu = Inl e" for e
    using that(1) parse_window_raises [OF that(2), of fromisoformat "five_hour u"]
    by (simp add: parse_api_usage_blocks Let_def)
  have B': "?fr = \<lparr>res_data = u, res_file = cfile, res_shown = [], res_outcome = Inl e\<rparr>"
    if "map_of d ''five_hour'' = Some (JObj fh) \<and> fh \<noteq> []" "py_int int_of_str ?fu = Inl e"
      "map_of d ''error'' = None" for e
  proof -
    have ne: "d \<noteq> []" using that(1) by auto
    have "snd ?r = Some e" "fst ?r = u" using B [OF that(1,2)] by simp_all
    then show ?thesis
      using fetch_usage_parse_raises [OF ne that(3), of int_of_str fromisoformat u e isoformat now cfile]
      by simp
  qed
  have C: "usage (weekly (fst ?r)) = JInt b"
    if "map_of d ''seven_day'' = Some (JObj wk) \<and> wk \<noteq> [] \<and> ?ok" "py_int int_of_str ?wu = Inr b" for b
  proof -
    have "snd ?b1 = None" using that(1) ok by blast
    then show ?thesis
      using that(1) parse_window_usage [OF that(2), of fromisoformat "weekly u"]
      by (simp add: parse_api_usage_blocks Let_def)
  qed
  have C0: "usage (weekly (fst ?r)) = JInt 0"
    if "map_of d ''seven_day'' = Some (JObj wk) \<and> wk \<noteq> [] \<and> ?ok" "map_of wk ''utilization'' = None"
    using C [OF that(1), of 0] that(2) by simp
  have Cn: "usage (weekly (fst ?r)) = JInt n"
    if "map_of d ''seven_day'' = Some (JObj wk) \<and> wk \<noteq> [] \<and> ?ok"
      "map_of wk ''utilization'' = Some (JInt n)" for n
    using C [OF that(1), of n] that(2) by simp
  have D: "snd ?r = Some e \<and> weekly (fst ?r) = weekly u"
    if "map_of d ''seven_day'' = Some (JObj wk) \<and> wk \<noteq> [] \<and> ?ok" "py_int int_of_str ?wu = Inl e" for e
  proof -
    have "snd ?b1 = None" using that(1) ok by blast
    then show ?thesis
      using that(1) parse_window_raises [OF that(2), of fromisoformat "weekly u"]
      by (simp add: parse_api_usage_blocks Let_def)
  qed
  have D': "res_outcome ?fr = Inl e \<and> res_file ?fr = cfile \<and> weekly (res_data ?fr) = weekly u"
    if "map_of d ''seven_day'' = Some (JObj wk) \<and> wk \<noteq> [] \<and> ?ok" "py_int int_of_str ?wu = Inl e"
      "map_of d ''error'' = None" for e
  proof -
    have ne: "d \<noteq> []" using that(1) by auto
    have "snd ?r = Some e" "weekly (fst ?r) = weekly u" using D [OF that(1,2)] by simp_all
    then show ?thesis
      using fetch_usage_parse_raises [OF ne that(3), of int_of_str fromisoformat u e isoformat now cfile]
      by simp
  qed
  have E: "weekly (fst ?r) = weekly u" if "\<not> ?ok"
  proof -
    from that ok obtain e where "snd ?b1 = Some e" by (cases "snd ?b1") auto
    then show ?thesis by (simp add: parse_api_usage_blocks Let_def)
  qed
  have F: "five_hour (fst ?r) = five_hour u"
    if "map_of d ''five_hour'' = None \<or> (\<exists>v. map_of d ''five_hour'' = Some v \<and> \<not> py_truthy v)"
    using that by (auto simp: parse_api_usage_blocks Let_def)
  have G: "weekly (fst ?r) = weekly u"
    if "map_of d ''seven_day'' = None \<or> (\<exists>v. map_of d ''seven_day'' = Some v \<and> \<not> py_truthy v)"
    using that by (auto simp: parse_api_usage_blocks Let_def split: option.splits)
  have T1: "map_of d ''five_hour'' = Some (JObj fh) \<and> fh \<noteq> [] \<longrightarrow>
          (\<forall>a. py_int int_of_str ?fu = Inr a \<longrightarrow> usage (five_hour (fst ?r)) = JInt a) \<and>
          (map_of fh ''utilization'' = None \<longrightarrow> usage (five_hour (fst ?r)) = JInt 0) \<and>
          (\<forall>n. map_of fh ''utilization'' = Some (JInt n) \<longrightarrow> usage (five_hour (fst ?r)) = JInt n) \<and>
          (\<forall>e. py_int int_of_str ?fu = Inl e \<longrightarrow>
               ?r = (u, Some e) \<and>
               (map_of d ''error'' = None \<longrightarrow>
                  ?fr = \<lparr>res_data = u, res_file = cfile, res_shown = [], res_outcome = Inl e\<rparr>))"
  proof (intro impI conjI allI)
    fix e
    assume h: "map_of d ''five_hour'' = Some (JObj fh) \<and> fh \<noteq> []"
      and i: "py_int int_of_str ?fu = Inl e"
    show "?r = (u, Some e)" using h i by (rule B)
    assume j: "map_of d ''error'' = None"
    show "?fr = \<lparr>res_data = u, res_file = cfile, res_shown = [], res_outcome = Inl e\<rparr>"
      using h i j by (rule B')
  qed (rule A A0 An; assumption)+
  have T2: "map_of d ''seven_day'' = Some (JObj wk) \<and> wk \<noteq> [] \<and> ?ok \<longrightarrow>
          (\<forall>b. py_int int_of_str ?wu = Inr b \<longrightarrow> usage (weekly (fst ?r)) = JInt b) \<and>
          (map_of wk ''utilization'' = None \<longrightarrow> usage (weekly (fst ?r)) = JInt 0) \<and>
          (\<forall>n. map_of wk ''utilization'' = Some (JInt n) \<longrightarrow> usage (weekly (fst ?r)) = JInt n) \<and>
          (\<forall>e. py_int int_of_str ?wu = Inl e \<longrightarrow>
               snd ?r = Some e \<and> weekly (fst ?r) = weekly u \<and>
               (map_of d ''error'' = None \<longrightarrow>
                  res_outcome ?fr = Inl e \<and> res_file ?fr = cfile \<and>
                  weekly (res_data ?fr) = weekly u))"
  proof (intro impI conjI allI)
    fix e
    assume h: "map_of d ''seven_day'' = Some (JObj wk) \<and> wk \<noteq> [] \<and> ?ok"
      and i: "py_int int_of_str ?wu = Inl e"
    show "snd ?r = Some e" "weekly (fst ?r) = weekly u" using D [OF h i] by simp_all
    assume j: "map_of d ''error'' = None"
    show "res_outcome ?fr = Inl e" "res_file ?fr = cfile" "weekly (res_data ?fr) = weekly u"
      using D' [OF h i j] by simp_all
  qed (rule C C0 Cn; assumption)+
  have T3: "\<not> ?ok \<longrightarrow> weekly (fst ?r) = weekly u" using E by (rule impI)
  have T4: "map_of d ''five_hour'' = None \<or> (\<exists>v. map_of d ''five_hour'' = Some v \<and> \<not> py_truthy v) \<longrightarrow>
          five_hour (fst ?r) = five_hour u" using F by (rule impI)
  have T5: "map_of d ''seven_day'' = None \<or> (\<exists>v. map_of d ''seven_day'' = Some v \<and> \<not> py_truthy v) \<longrightarrow>
          weekly (fst ?r) = weekly u" using G by (rule impI)
  show ?thesis
    unfolding Let_def by (intro conjI T1 T2 T3 T4 T5)
qed


theorem parse_api_usage_utilization_witness:
  "(let r = parse_api_usage (\<lambda>s. None) (\<lambda>s. None :: nat option)
              (JObj [(''five_hour'', JObj [(''utilization'', JInt 150)]),
                     (''seven_day'', JObj [(''utilization'', JInt (- 3))])])
              init_usage_data
    in usage (five_hour (fst r)) = JInt 150 \<and> usage (weekly (fst r)) = JInt (- 3)) \<and>
   (let d = [(''five_hour'', JObj []), (''seven_day'', JObj [(''utilization'', JNull)])];
        u = \<lparr>five_hour = \<lparr>usage = JInt 37, reset = None\<rparr>,
             weekly = \<lparr>usage = JInt 12, reset = None\<rparr>, last_update = None\<rparr>;
        r = parse_api_usage (\<lambda>s. None) (\<lambda>s. None :: nat option) (JObj d) u;
        fr = fetch_usage (\<lambda>s. None) (\<lambda>s. None) (\<lambda>t::nat. ''t'') 100 (JObj d) u NoFile
    in five_hour (fst r) = \<lparr>usage = JInt 37, reset = None\<rparr> \<and>
       res_outcome fr = Inl TypeError \<and> res_file fr = NoFile \<and>
       weekly (res_data fr) = \<lparr>usage = JInt 12, reset = None\<rparr>)"
proof -
  let ?fh = "[(''utilization'', JInt 150)]"
  let ?wk = "[(''utilization'', JInt (- 3))]"
  let ?d = "[(''five_hour'', JObj ?fh), (''seven_day'', JObj ?wk)]"
  let ?r = "parse_api_usage (\<lambda>s. None) (\<lambda>s. None :: nat option) (JObj ?d) init_usage_data"
  have a: "map_of ?d ''five_hour'' = Some (JObj ?fh) \<and> ?fh \<noteq> []" by simp
  have b: "py_int (\<lambda>s. None) (case map_of ?fh ''utilization'' of Some v \<Rightarrow> v | None \<Rightarrow> JInt 0) = Inr 150"
    by simp
  have c: "map_of ?d ''seven_day'' = Some (JObj ?wk) \<and> ?wk \<noteq> [] \<and>
           (case map_of ?d ''five_hour'' of
              None \<Rightarrow> True
            | Some v \<Rightarrow> \<not> py_truthy v \<or>
                snd (parse_window (\<lambda>s. None) (\<lambda>s. None :: nat option) v
                       (five_hour init_usage_data)) = None)"
    by (simp add: parse_window_def)
  have e: "py_int (\<lambda>s. None) (case map_of ?wk ''utilization'' of Some v \<Rightarrow> v | None \<Rightarrow> JInt 0) = Inr (- 3)"
    by simp
  note t1 = parse_api_usage_utilization [where int_of_str = "\<lambda>s. None"
      and fromisoformat = "\<lambda>s. None :: nat option" and d = ?d and u = init_usage_data
      and fh = ?fh and wk = ?wk and isoformat = "\<lambda>t::nat. ''t''" and now = 100 and cfile = NoFile,
      unfolded Let_def]
  have 1: "usage (five_hour (fst ?r)) = JInt 150"
    using t1 [THEN conjunct1, rule_format, OF a, THEN conjunct1, rule_format, OF b] .
  have 2: "usage (weekly (fst ?r)) = JInt (- 3)"
    using t1 [THEN conjunct2, THEN conjunct1, rule_format, OF c, THEN conjunct1, rule_format, OF e] .
  let ?wk2 = "[(''utilization'', JNull)]"
  let ?d2 = "[(''five_hour'', JObj []), (''seven_day'', JObj ?wk2)]"
  let ?u2 = "\<lparr>five_hour = \<lparr>usage = JInt 37, reset = None\<rparr>,
              weekly = \<lparr>usage = JInt 12, reset = None\<rparr>, last_update = None :: nat option\<rparr>"
  let ?r2 = "parse_api_usage (\<lambda>s. None) (\<lambda>s. None :: nat option) (JObj ?d2) ?u2"
  let ?fr2 = "fetch_usage (\<lambda>s. None) (\<lambda>s. None) (\<lambda>t::nat. ''t'') 100 (JObj ?d2) ?u2 NoFile"
  note t2 = parse_api_usage_utilization [where int_of_str = "\<lambda>s. None"
      and fromisoformat = "\<lambda>s. None :: nat option" and d = ?d2 and u = ?u2
      and fh = "[]" and wk = ?wk2 and isoformat = "\<lambda>t::nat. ''t''" and now = 100 and cfile = NoFile,
      unfolded Let_def]
  have f: "map_of ?d2 ''five_hour'' = None \<or>
           (\<exists>v. map_of ?d2 ''five_hour'' = Some v \<and> \<not> py_truthy v)" by simp
  have g: "map_of ?d2 ''seven_day'' = Some (JObj ?wk2) \<and> ?wk2 \<noteq> [] \<and>
           (case map_of ?d2 ''five_hour'' of
              None \<Rightarrow> True
            | Some v \<Rightarrow> \<not> py_truthy v \<or>
                snd (parse_window (\<lambda>s. None) (\<lambda>s. None :: nat option) v (five_hour ?u2)) = None)"
    by simp
  have h: "py_int (\<lambda>s. None) (case map_of ?wk2 ''utilization'' of Some v \<Rightarrow> v | None \<Rightarrow> JInt 0)
             = Inl TypeError" by simp
  have k: "map_of ?d2 ''error'' = None" by simp
  have 3: "five_hour (fst ?r2) = five_hour ?u2"
    using t2 [THEN conjunct2, THEN conjunct2, THEN conjunct2, THEN conjunct1, rule_format, OF f] .
  have 4: "res_outcome ?fr2 = Inl TypeError \<and> res_file ?fr2 = NoFile \<and>
           weekly (res_data ?fr2) = weekly ?u2"
    using t2 [THEN conjunct2, THEN conjunct1, rule_format, OF g, THEN conjunct2, THEN conjunct2,
        THEN conjunct2, rule_format, OF h, THEN conjunct2, THEN conjunct2, rule_format, OF k] .
  show ?thesis unfolding Let_def using 1 2 3 4 by simp
qed

text \<open>
  The claim C3 as stated fails on two payloads. With \<^verbatim>\<open>"utilization": null\<close> the run
  ends in the outer handler with \<^verbatim>\<open>TypeError\<close>, the usage stays 37 and no file is
  written. With the empty object as the five-hour window the block is skipped and the
  usage stays 37, where the claim has 0.
\<close>

theorem malformed_utilization_counterexample:
  "fetch_usage (\<lambda>s. None) (\<lambda>s. None) (\<lambda>d::nat. []) 0
     (JObj [(''five_hour'', JObj [(''utilization'', JNull)])])
     \<lparr>five_hour = \<lparr>usage = JInt 37, reset = None\<rparr>,
      weekly = \<lparr>usage = JInt 12, reset = None\<rparr>, last_update = None\<rparr> NoFile
   = \<lparr>res_data = \<lparr>five_hour = \<lparr>usage = JInt 37, reset = None\<rparr>,
                    weekly = \<lparr>usage = JInt 12, reset = None\<rparr>, last_update = None\<rparr>,
      res_file = NoFile, res_shown = [], res_outcome = Inl TypeError\<rparr> \<and>
   usage (five_hour (fst (parse_api_usage (\<lambda>s. None) (\<lambda>s. None :: nat option)
     (JObj [(''five_hour'', JObj []), (''seven_day'', JObj [(''utilization'', JInt 5)])])
     \<lparr>five_hour = \<lparr>usage = JInt 37, reset = None\<rparr>,
      weekly = \<lparr>usage = JInt 12, reset = None\<rparr>, last_update = None\<rparr>))) = JInt 37"
  by (simp add: fetch_usage_def case_live_def parse_api_usage_def parse_window_def)




section \<open>Writing the configuration and reading it back\<close>

lemma case_cached_not_live: "res_outcome (case_cached fi api u f) \<noteq> Inr Live"
  by (auto simp: case_cached_def Let_def split: sum.splits bool.splits config_file.splits option.splits if_splits)

lemma fetch_usage_live_file:
  assumes "res_outcome (fetch_usage ios fi isof now api u f) = Inr Live"
  shows "res_file (fetch_usage ios fi isof now api u f) =
           File (JObj (live_config isof now (res_data (fetch_usage ios fi isof now api u f))))"
    and "fetch_usage ios fi isof now api u f = case_live ios fi isof now api u f"
    and "snd (parse_api_usage ios fi api u) = None"
proof -
  have c: "fetch_usage ios fi isof now api u f = case_live ios fi isof now api u f"
    using assms case_cached_not_live [of fi api u f]
    by (auto simp: fetch_usage_def case_default_def split: sum.splits bool.splits if_splits)
  then show "fetch_usage ios fi isof now api u f = case_live ios fi isof now api u f" .
  from assms c show p: "snd (parse_api_usage ios fi api u) = None"
    by (auto simp: case_live_def Let_def split: option.splits)
  then show "res_file (fetch_usage ios fi isof now api u f) =
           File (JObj (live_config isof now (res_data (fetch_usage ios fi isof now api u f))))"
    by (simp add: c case_live_def Let_def)
qed

lemma live_config_keys:
  "map_of (live_config isof now u) ''five_hour_usage'' = Some (usage (five_hour u))"
  "map_of (live_config isof now u) ''weekly_usage'' = Some (usage (weekly u))"
  "map_of (live_config isof now u) ''last_auto_update'' = Some (JStr (isof now))"
  "map_of (live_config isof now u) ''five_hour_reset'' = map_option (\<lambda>d. JStr (isof d)) (reset (five_hour u))"
  "map_of (live_config isof now u) ''weekly_reset'' = map_option (\<lambda>d. JStr (isof d)) (reset (weekly u))"
  by (simp_all add: live_config_def split: option.splits)

lemma live_config_other_keys:
  assumes "k \<notin> {''five_hour_usage'', ''weekly_usage'', ''last_auto_update'', ''five_hour_reset'', ''weekly_reset''}"
  shows "map_of (live_config isof now u) k = None"
  using assms by (simp add: live_config_def split: option.splits)

lemma cached_reset_round_trip:
  assumes "map_of cfg k = map_option (\<lambda>d. JStr (isof d)) x"
    and "\<forall>d. x = Some d \<longrightarrow> isof d \<noteq> [] \<and> fi (replace_Z (isof d)) = Some d"
    and "reset w = x \<or> reset w = None"
  shows "cached_reset fi cfg k w = (w\<lparr>reset := x\<rparr>, None)"
  using assms by (cases x) (auto simp: cached_reset_def)


lemma read_live_config:
  assumes lib: "\<forall>d. reset (five_hour u1) = Some d \<or> reset (weekly u1) = Some d \<longrightarrow>
                  isof d \<noteq> [] \<and> fi (replace_Z (isof d)) = Some d"
    and start: "u2 = u1 \<or> u2 = init_usage_data"
  shows "read_config fi (JObj (live_config isof now u1)) u2 =
           (u2\<lparr>five_hour := five_hour u1, weekly := weekly u1\<rparr>, None)"
proof -
  let ?cfg = "live_config isof now u1"
  have f: "cached_reset fi ?cfg ''five_hour_reset'' w = (w\<lparr>reset := reset (five_hour u1)\<rparr>, None)"
    if "reset w = reset (five_hour u1) \<or> reset w = None" for w
    using live_config_keys(4) [of isof now u1] lib that
    by (intro cached_reset_round_trip [where isof = isof]) auto
  have w: "cached_reset fi ?cfg ''weekly_reset'' w = (w\<lparr>reset := reset (weekly u1)\<rparr>, None)"
    if "reset w = reset (weekly u1) \<or> reset w = None" for w
    using live_config_keys(5) [of isof now u1] lib that
    by (intro cached_reset_round_trip [where isof = isof]) auto
  have s5: "reset (five_hour u2) = reset (five_hour u1) \<or> reset (five_hour u2) = None"
    and s7: "reset (weekly u2) = reset (weekly u1) \<or> reset (weekly u2) = None"
    using start by (auto simp: init_usage_data_def)
  have f': "cached_reset fi ?cfg ''five_hour_reset'' ((five_hour u2)\<lparr>usage := usage (five_hour u1)\<rparr>)
              = (five_hour u1, None)"
    using f [of "(five_hour u2)\<lparr>usage := usage (five_hour u1)\<rparr>"] s5 by simp
  have w': "cached_reset fi ?cfg ''weekly_reset'' ((weekly u2)\<lparr>usage := usage (weekly u1)\<rparr>)
              = (weekly u1, None)"
    using w [of "(weekly u2)\<lparr>usage := usage (weekly u1)\<rparr>"] s7 by simp
  show ?thesis
    by (simp add: read_config_def Let_def live_config_keys(1,2) f' w')
qed

lemma fetch_usage_no_live:
  assumes "api2 = JNull \<or> (\<exists>e msg. api2 = JObj e \<and> map_of e ''error'' = Some msg)"
  shows "res_data (fetch_usage ios fi isof now2 api2 u2 (File cfg)) = fst (read_config fi cfg u2)"
    and "res_file (fetch_usage ios fi isof now2 api2 u2 (File cfg)) = File cfg"
    and "res_outcome (fetch_usage ios fi isof now2 api2 u2 (File cfg)) =
           (case snd (read_config fi cfg u2) of Some e \<Rightarrow> Inl e | None \<Rightarrow> Inr Cached)"
  using assms by (auto simp: fetch_usage_def case_cached_def Let_def)

text \<open>
  C5: when a run of \<^verbatim>\<open>fetch_usage\<close> completed as case 1, the next run without live
  data (the fetch failed or was not attempted), started in the same process or in a fresh
  one, completes as case 2 on the file just written and yields the same two usage figures
  and the same two reset times, and leaves the file as it is. The library is asked one
  thing: for each reset time of the state, \<^verbatim>\<open>isoformat\<close> gives a non-empty text that
  \<^verbatim>\<open>fromisoformat\<close> reads back to the same time after the replacement of \<^verbatim>\<open>Z\<close>.
\<close>

theorem live_config_round_trip:
  assumes live: "res_outcome (fetch_usage int_of_str fromisoformat isoformat now api_data u cfile) = Inr Live"
    and lib: "\<forall>d. reset (five_hour (res_data (fetch_usage int_of_str fromisoformat isoformat now api_data u cfile))) = Some d \<or>
                  reset (weekly (res_data (fetch_usage int_of_str fromisoformat isoformat now api_data u cfile))) = Some d \<longrightarrow>
                isoformat d \<noteq> [] \<and> fromisoformat (replace_Z (isoformat d)) = Some d"
    and nolive: "api2 = JNull \<or> (\<exists>e msg. api2 = JObj e \<and> map_of e ''error'' = Some msg)"
    and start: "u2 = res_data (fetch_usage int_of_str fromisoformat isoformat now api_data u cfile) \<or>
                u2 = init_usage_data"
  shows "let r1 = fetch_usage int_of_str fromisoformat isoformat now api_data u cfile;
             r2 = fetch_usage int_of_str fromisoformat isoformat now2 api2 u2 (res_file r1)
         in res_outcome r2 = Inr Cached \<and>
            usage (five_hour (res_data r2)) = usage (five_hour (res_data r1)) \<and>
            usage (weekly (res_data r2)) = usage (weekly (res_data r1)) \<and>
            reset (five_hour (res_data r2)) = reset (five_hour (res_data r1)) \<and>
            reset (weekly (res_data r2)) = reset (weekly (res_data r1)) \<and>
            res_file r2 = res_file r1"
proof -
  let ?r1 = "fetch_usage int_of_str fromisoformat isoformat now api_data u cfile"
  let ?u1 = "res_data ?r1"
  let ?cfg = "live_config isoformat now ?u1"
  have wr: "res_file ?r1 = File (JObj ?cfg)"
    using live by (rule fetch_usage_live_file(1))
  have rd: "read_config fromisoformat (JObj ?cfg) u2 =
              (u2\<lparr>five_hour := five_hour ?u1, weekly := weekly ?u1\<rparr>, None)"
    using lib start by (rule read_live_config)
  show ?thesis unfolding Let_def wr by (simp add: fetch_usage_no_live [OF nolive] rd)
qed

theorem live_config_round_trip_witness:
  "let fi = (\<lambda>s. if s = ''2025-03-01T15:00:00+00:00'' then Some (90::nat)
                  else if s = ''2025-03-08T00:00:00+00:00'' then Some 7 else None);
       isof = (\<lambda>d::nat. if d = 90 then ''2025-03-01T15:00:00+00:00''
                         else ''2025-03-08T00:00:00+00:00'');
       api = JObj [(''five_hour'', JObj [(''utilization'', JInt 20),
                                          (''resets_at'', JStr ''2025-03-01T15:00:00Z'')]),
                   (''seven_day'', JObj [(''utilization'', JInt 64),
                                          (''resets_at'', JStr ''2025-03-08T00:00:00Z'')])];
       r1 = fetch_usage (\<lambda>s. None) fi isof 100 api init_usage_data NoFile;
       r2 = fetch_usage (\<lambda>s. None) fi isof 200 JNull init_usage_data (res_file r1)
   in res_outcome r1 = Inr Live \<and> res_outcome r2 = Inr Cached \<and>
      usage (five_hour (res_data r2)) = JInt 20 \<and> reset (five_hour (res_data r2)) = Some 90 \<and>
      usage (weekly (res_data r2)) = JInt 64 \<and> reset (weekly (res_data r2)) = Some 7"
proof -
  let ?fi = "\<lambda>s. if s = ''2025-03-01T15:00:00+00:00'' then Some (90::nat)
                  else if s = ''2025-03-08T00:00:00+00:00'' then Some 7 else None"
  let ?isof = "\<lambda>d::nat. if d = 90 then ''2025-03-01T15:00:00+00:00''
                         else ''2025-03-08T00:00:00+00:00''"
  let ?api = "JObj [(''five_hour'', JObj [(''utilization'', JInt 20),
                                          (''resets_at'', JStr ''2025-03-01T15:00:00Z'')]),
                   (''seven_day'', JObj [(''utilization'', JInt 64),
                                          (''resets_at'', JStr ''2025-03-08T00:00:00Z'')])]"
  let ?r1 = "fetch_usage (\<lambda>s. None) ?fi ?isof 100 ?api init_usage_data NoFile"
  have z: "replace_Z ''2025-03-01T15:00:00Z'' = ''2025-03-01T15:00:00+00:00''"
    "replace_Z ''2025-03-08T00:00:00Z'' = ''2025-03-08T00:00:00+00:00''"
    "replace_Z ''2025-03-01T15:00:00+00:00'' = ''2025-03-01T15:00:00+00:00''"
    "replace_Z ''2025-03-08T00:00:00+00:00'' = ''2025-03-08T00:00:00+00:00''"
    by (simp_all add: replace_Z_def)
  have p: "parse_api_usage (\<lambda>s. None) ?fi ?api init_usage_data =
      (\<lparr>five_hour = \<lparr>usage = JInt 20, reset = Some 90\<rparr>,
        weekly = \<lparr>usage = JInt 64, reset = Some 7\<rparr>, last_update = None\<rparr>, None)"
    by (simp add: parse_api_usage_def parse_window_def init_usage_data_def z)
  have r1: "?r1 = \<lparr>res_data = \<lparr>five_hour = \<lparr>usage = JInt 20, reset = Some 90\<rparr>,
                        weekly = \<lparr>usage = JInt 64, reset = Some 7\<rparr>, last_update = None\<rparr>,
                    res_file = File (JObj (live_config ?isof 100
                       \<lparr>five_hour = \<lparr>usage = JInt 20, reset = Some 90\<rparr>,
                        weekly = \<lparr>usage = JInt 64, reset = Some 7\<rparr>, last_update = None\<rparr>)),
                    res_shown = [], res_outcome = Inr Live\<rparr>"
    by (simp add: fetch_usage_def case_live_def p)
  have live: "res_outcome ?r1 = Inr Live" by (simp add: r1)
  have lib: "\<forall>d. reset (five_hour (res_data ?r1)) = Some d \<or> reset (weekly (res_data ?r1)) = Some d \<longrightarrow>
                ?isof d \<noteq> [] \<and> ?fi (replace_Z (?isof d)) = Some d"
    unfolding r1 by (auto simp: z)
  have nolive: "JNull = JNull \<or> (\<exists>e msg. JNull = JObj e \<and> map_of e ''error'' = Some msg)" by simp
  have start: "(init_usage_data :: nat usage_data) = res_data ?r1 \<or>
               (init_usage_data :: nat usage_data) = init_usage_data" by simp
  have "let r1 = ?r1;
            r2 = fetch_usage (\<lambda>s. None) ?fi ?isof 200 JNull init_usage_data (res_file r1)
         in res_outcome r2 = Inr Cached \<and>
            usage (five_hour (res_data r2)) = usage (five_hour (res_data r1)) \<and>
            usage (weekly (res_data r2)) = usage (weekly (res_data r1)) \<and>
            reset (five_hour (res_data r2)) = reset (five_hour (res_data r1)) \<and>
            reset (weekly (res_data r2)) = reset (weekly (res_data r1)) \<and>
            res_file r2 = res_file r1"
    using live lib nolive start by (rule live_config_round_trip)
  then show ?thesis unfolding Let_def using live by (simp add: r1)
qed

section \<open>What a successful fetch writes\<close>

lemma fetch_usage_live_any_file:
  assumes "res_outcome (fetch_usage ios fi isof now api u f) = Inr Live"
  shows "fetch_usage ios fi isof now api u f' = case_live ios fi isof now api u f'"
proof -
  have "(if py_truthy api
         then (case error_in api of Inl e \<Rightarrow> Inl e | Inr b \<Rightarrow> Inr (\<not> b))
         else Inr False) = Inr True"
    using assms case_cached_not_live [of fi api u f]
    by (auto simp: fetch_usage_def case_default_def split: sum.splits bool.splits if_splits)
  then show ?thesis by (simp add: fetch_usage_def)
qed

lemma case_live_file_independent:
  assumes "res_outcome (case_live ios fi isof now api u f) = Inr Live"
  shows "res_file (case_live ios fi isof now api u f') = res_file (case_live ios fi isof now api u f)"
  using assms by (auto simp: case_live_def Let_def split: option.splits)

lemma fetch_and_update_merges:
  assumes "fetch_and_update ios jl isof now ce run (File (JObj cfg)) = Inr (True, File (JObj cfg'))"
    and "k \<notin> {''usage_percentage'', ''last_auto_update'', ''reset_at''}"
  shows "map_of cfg' k = map_of cfg k"
  using assms
  by (auto simp: fetch_and_update_def Let_def map_of_dict_set
      split: if_splits run_result.splits option.splits sum.splits)

text \<open>
  The claim C4 as stated fails on the command line's fetch: \<^verbatim>\<open>fetch_and_update\<close>
  loads the existing configuration and assigns three keys in it, so the key
  \<^verbatim>\<open>last_manual_update\<close> of the file is still there after a successful fetch.
\<close>

theorem cli_fetch_merges_counterexample:
  \<open>fetch_and_update (\<lambda>s. None)
     (\<lambda>s. if s = ''{"five_hour": {"utilization": 10}}'' @ [CHR 0x0A]
          then Some (JObj [(''five_hour'', JObj [(''utilization'', JInt 10)])]) else None)
     (\<lambda>d::nat. ''2025-03-01T10:00:00'') 0 True
     (Completed \<lparr>returncode = 0,
                 stdout = ''{"five_hour": {"utilization": 10}}'' @ [CHR 0x0A],
                 stderr = []\<rparr>)
     (File (JObj [(''usage_percentage'', JInt 45),
                  (''last_manual_update'', JStr ''2025-02-28T08:00:00'')]))
   = Inr (True, File (JObj [(''usage_percentage'', JInt 10),
                            (''last_manual_update'', JStr ''2025-02-28T08:00:00''),
                            (''last_auto_update'', JStr ''2025-03-01T10:00:00'')]))\<close>
  by (simp add: fetch_and_update_def strip_def isspace_def)


text \<open>
  C4 (amended): a run of \<^verbatim>\<open>fetch_usage\<close> that completes as case 1 writes exactly
  the dictionary it computed: the file does not depend on the file that was there, and no
  key other than \<^verbatim>\<open>five_hour_usage\<close>, \<^verbatim>\<open>weekly_usage\<close>,
  \<^verbatim>\<open>last_auto_update\<close>, \<^verbatim>\<open>five_hour_reset\<close> and \<^verbatim>\<open>weekly_reset\<close> is in it.
  The command line's fetch merges instead: after a successful \<^verbatim>\<open>fetch_and_update\<close>
  every key other than \<^verbatim>\<open>usage_percentage\<close>, \<^verbatim>\<open>last_auto_update\<close> and
  \<^verbatim>\<open>reset_at\<close> has the value it had.
\<close>

theorem success_write_policy:
  "(res_outcome (fetch_usage int_of_str fromisoformat isoformat now api_data u cfile) = Inr Live \<longrightarrow>
      res_file (fetch_usage int_of_str fromisoformat isoformat now api_data u cfile) =
        File (JObj (live_config isoformat now
          (res_data (fetch_usage int_of_str fromisoformat isoformat now api_data u cfile)))) \<and>
      res_file (fetch_usage int_of_str fromisoformat isoformat now api_data u cfile') =
        res_file (fetch_usage int_of_str fromisoformat isoformat now api_data u cfile) \<and>
      (\<forall>k. k \<notin> {''five_hour_usage'', ''weekly_usage'', ''last_auto_update'',
                  ''five_hour_reset'', ''weekly_reset''} \<longrightarrow>
           map_of (live_config isoformat now
             (res_data (fetch_usage int_of_str fromisoformat isoformat now api_data u cfile))) k = None)) \<and>
   (fetch_and_update int_of_str json_loads isoformat now cookie_exists run (File (JObj cfg))
      = Inr (True, File (JObj cfg')) \<longrightarrow>
      (\<forall>k. k \<notin> {''usage_percentage'', ''last_auto_update'', ''reset_at''} \<longrightarrow>
           map_of cfg' k = map_of cfg k))"
proof (intro conjI impI allI)
  assume live: "res_outcome (fetch_usage int_of_str fromisoformat isoformat now api_data u cfile) = Inr Live"
  show "res_file (fetch_usage int_of_str fromisoformat isoformat now api_data u cfile) =
        File (JObj (live_config isoformat now
          (res_data (fetch_usage int_of_str fromisoformat isoformat now api_data u cfile))))"
    using live by (rule fetch_usage_live_file(1))
  have c: "\<And>f'. fetch_usage int_of_str fromisoformat isoformat now api_data u f' =
             case_live int_of_str fromisoformat isoformat now api_data u f'"
    using live by (rule fetch_usage_live_any_file)
  show "res_file (fetch_usage int_of_str fromisoformat isoformat now api_data u cfile') =
        res_file (fetch_usage int_of_str fromisoformat isoformat now api_data u cfile)"
    unfolding c using live [unfolded c] by (rule case_live_file_independent)
next
  fix k
  assume "k \<notin> {''five_hour_usage'', ''weekly_usage'', ''last_auto_update'',
                  ''five_hour_reset'', ''weekly_reset''}"
  then show "map_of (live_config isoformat now
             (res_data (fetch_usage int_of_str fromisoformat isoformat now api_data u cfile))) k = None"
    by (rule live_config_other_keys)
next
  fix k
  assume "fetch_and_update int_of_str json_loads isoformat now cookie_exists run (File (JObj cfg))
      = Inr (True, File (JObj cfg'))"
    and "k \<notin> {''usage_percentage'', ''last_auto_update'', ''reset_at''}"
  then show "map_of cfg' k = map_of cfg k" by (rule fetch_and_update_merges)
qed

theorem success_write_policy_witness:
  \<open>res_file (fetch_usage (\<lambda>s. None) (\<lambda>s. None) (\<lambda>d::nat. ''2025-03-01T10:00:00'') 100
      (JObj [(''five_hour'', JObj [(''utilization'', JInt 10)])]) init_usage_data
      (File (JObj [(''usage_percentage'', JInt 45),
                   (''last_manual_update'', JStr ''2025-02-28T08:00:00'')])))
    = File (JObj [(''five_hour_usage'', JInt 10), (''weekly_usage'', JInt 0),
                  (''last_auto_update'', JStr ''2025-03-01T10:00:00'')]) \<and>
   (\<exists>cfg'. fetch_and_update (\<lambda>s. None)
       (\<lambda>s. if s = ''{"five_hour": {"utilization": 10}}'' @ [CHR 0x0A]
            then Some (JObj [(''five_hour'', JObj [(''utilization'', JInt 10)])]) else None)
       (\<lambda>d::nat. ''2025-03-01T10:00:00'') 100 True
       (Completed \<lparr>returncode = 0,
                   stdout = ''{"five_hour": {"utilization": 10}}'' @ [CHR 0x0A],
                   stderr = []\<rparr>)
       (File (JObj [(''usage_percentage'', JInt 45),
                    (''last_manual_update'', JStr ''2025-02-28T08:00:00'')]))
      = Inr (True, File (JObj cfg')) \<and>
      map_of cfg' ''last_manual_update'' = Some (JStr ''2025-02-28T08:00:00''))\<close>
proof -
  let ?isof = "\<lambda>d::nat. ''2025-03-01T10:00:00''"
  let ?api = "JObj [(''five_hour'', JObj [(''utilization'', JInt 10)])]"
  let ?cfg = "[(''usage_percentage'', JInt 45), (''last_manual_update'', JStr ''2025-02-28T08:00:00'')]"
  let ?jl = \<open>\<lambda>s. if s = ''{"five_hour": {"utilization": 10}}'' @ [CHR 0x0A]
            then Some (JObj [(''five_hour'', JObj [(''utilization'', JInt 10)])]) else None\<close>
  let ?run = \<open>Completed \<lparr>returncode = 0,
                   stdout = ''{"five_hour": {"utilization": 10}}'' @ [CHR 0x0A],
                   stderr = []\<rparr>\<close>
  let ?cfg' = "[(''usage_percentage'', JInt 10),
                (''last_manual_update'', JStr ''2025-02-28T08:00:00''),
                (''last_auto_update'', JStr ''2025-03-01T10:00:00'')]"
  let ?r = "fetch_usage (\<lambda>s. None) (\<lambda>s. None) ?isof 100 ?api init_usage_data (File (JObj ?cfg))"
  have p: "parse_api_usage (\<lambda>s. None) (\<lambda>s. None :: nat option) ?api init_usage_data =
      (\<lparr>five_hour = \<lparr>usage = JInt 10, reset = None\<rparr>,
        weekly = \<lparr>usage = JInt 0, reset = None\<rparr>, last_update = None\<rparr>, None)"
    by (simp add: parse_api_usage_def parse_window_def init_usage_data_def)
  have r: "?r = \<lparr>res_data = \<lparr>five_hour = \<lparr>usage = JInt 10, reset = None\<rparr>,
                      weekly = \<lparr>usage = JInt 0, reset = None\<rparr>, last_update = None\<rparr>,
                  res_file = File (JObj (live_config ?isof 100
                      \<lparr>five_hour = \<lparr>usage = JInt 10, reset = None\<rparr>,
                       weekly = \<lparr>usage = JInt 0, reset = None\<rparr>, last_update = None\<rparr>)),
                  res_shown = [], res_outcome = Inr Live\<rparr>"
    by (simp add: fetch_usage_def case_live_def p)
  have live: "res_outcome ?r = Inr Live" by (simp add: r)
  have f: "fetch_and_update (\<lambda>s. None) ?jl ?isof 100 True ?run (File (JObj ?cfg))
             = Inr (True, File (JObj ?cfg'))"
    by (simp add: fetch_and_update_def strip_def isspace_def)
  have k: "''last_manual_update'' \<notin> {''usage_percentage'', ''last_auto_update'', ''reset_at''}"
    by simp
  note t = success_write_policy [where int_of_str = "\<lambda>s. None" and fromisoformat = "\<lambda>s. None"
      and isoformat = ?isof and now = 100 and api_data = ?api and u = init_usage_data
      and cfile = "File (JObj ?cfg)" and json_loads = ?jl and cookie_exists = True
      and run = ?run and cfg = ?cfg and cfg' = ?cfg']
  have "res_file ?r = File (JObj (live_config ?isof 100 (res_data ?r)))"
    using t [THEN conjunct1, rule_format, OF live, THEN conjunct1] .
  then have 1: "res_file ?r = File (JObj [(''five_hour_usage'', JInt 10), (''weekly_usage'', JInt 0),
                  (''last_auto_update'', JStr ''2025-03-01T10:00:00'')])"
    by (simp add: r live_config_def)
  have "map_of ?cfg' ''last_manual_update'' = map_of ?cfg ''last_manual_update''"
    using t [THEN conjunct2, rule_format, OF f k] .
  then have 2: "map_of ?cfg' ''last_manual_update'' = Some (JStr ''2025-02-28T08:00:00'')" by simp
  show ?thesis
  proof (intro conjI exI)
    show "res_file ?r = File (JObj [(''five_hour_usage'', JInt 10), (''weekly_usage'', JInt 0),
                  (''last_auto_update'', JStr ''2025-03-01T10:00:00'')])" by (rule 1)
    show "fetch_and_update (\<lambda>s. None) ?jl ?isof 100 True ?run (File (JObj ?cfg))
             = Inr (True, File (JObj ?cfg'))" by (rule f)
    show "map_of ?cfg' ''last_manual_update'' = Some (JStr ''2025-02-28T08:00:00'')" by (rule 2)
  qed
qed

section \<open>Cookie parsing and the empty cookie file\<close>

lemma set_strip: "set (strip s) \<subseteq> set s"
proof -
  have "set (strip s) \<subseteq> set (dropWhile isspace s)"
    unfolding strip_def using set_dropWhileD by fastforce
  also have "\<dots> \<subseteq> set s" using set_dropWhileD by fastforce
  finally show ?thesis .
qed

lemma cookie_of_part_ignored:
  assumes "strip p = [] \<or> CHR ''='' \<notin> set p"
  shows "cookie_of_part dmn p = []"
proof (cases "strip p = []")
  case True
  then show ?thesis by (simp add: cookie_of_part_def)
next
  case False
  with assms have "CHR ''='' \<notin> set (strip p)" using set_strip by blast
  then show ?thesis by (simp add: cookie_of_part_def find_eq_def Let_def)
qed

lemma concat_map_filter:
  assumes "\<And>x. \<not> P x \<Longrightarrow> f x = []"
  shows "concat (map f xs) = concat (map f (filter P xs))"
  using assms by (induction xs) auto

lemma parse_cookies_ignores:
  "parse_cookies cs dmn =
     concat (map (cookie_of_part dmn)
       (filter (\<lambda>p. strip p \<noteq> [] \<and> CHR ''='' \<in> set p) (split_cookie_str cs)))"
  unfolding parse_cookies_def
  by (rule concat_map_filter) (use cookie_of_part_ignored in blast)

lemma get_usage_empty_cookie_file:
  assumes "strip cookie_text = []"
  shows "snd (get_usage playwright (Some cookie_text) cf_path browser org_id headless quiet) = Inr JNull"
    and "quiet \<Longrightarrow> fst (get_usage playwright (Some cookie_text) cf_path browser org_id headless quiet) = []"
  using assms by (simp_all add: get_usage_def)

lemma unknown_error_msg:
  "\<not> (startswith ''Unknown error'' ''{'' \<and> contains ''Unknown error'' ''error'')"
  by (simp add: startswith_def)

lemma wrapper_empty_cookie_file:
  assumes "strip cookie_text = []"
  shows "fetch_usage_from_api json_loads True True
           (Completed (get_usage_main json_dumps traceback playwright (Some cookie_text) cf_path browser
                         org_id no_headless True raw))
         = error_dict ''System error: Unknown error...''"
proof -
  have m: "get_usage_main json_dumps traceback playwright (Some cookie_text) cf_path browser
             org_id no_headless True raw = \<lparr>returncode = 1, stdout = [], stderr = []\<rparr>"
    by (simp add: get_usage_main_def Let_def unlines_def get_usage_empty_cookie_file [OF assms])
  show ?thesis
    unfolding m fetch_usage_from_api_def using unknown_error_msg by (simp add: Let_def)
qed

text \<open>
  C7 (amended): \<^verbatim>\<open>parse_cookies\<close> has no statement that raises, and a segment that
  is empty after stripping or holds no \<^verbatim>\<open>=\<close> adds no cookie: the result is the one
  of the remaining segments. For a cookie file that exists and is empty after stripping,
  \<^verbatim>\<open>get_usage\<close> returns \<^verbatim>\<open>None\<close> whatever the browser would do, so no fetch is
  made; the indicator's wrapper, which tests only that the file exists, turns the exit
  status 1 of that run into the failure \<^verbatim>\<open>System error: Unknown error...\<close>.
\<close>

theorem cookie_parsing_and_empty_file:
  "parse_cookies cs dmn =
     concat (map (cookie_of_part dmn)
       (filter (\<lambda>p. strip p \<noteq> [] \<and> CHR ''='' \<in> set p) (split_cookie_str cs))) \<and>
   (strip cookie_text = [] \<longrightarrow>
      snd (get_usage playwright (Some cookie_text) cf_path browser org_id headless quiet) = Inr JNull \<and>
      fetch_usage_from_api json_loads True True
        (Completed (get_usage_main json_dumps traceback playwright (Some cookie_text) cf_path browser
                      org_id no_headless True raw))
      = JObj [(''error'', JStr ''System error: Unknown error...'')])"
  using parse_cookies_ignores get_usage_empty_cookie_file(1) wrapper_empty_cookie_file
  by (simp add: error_dict_def)

text \<open>
  The claim C7 as stated fails at the empty cookie file: what \<^verbatim>\<open>_fetch_usage_from_api\<close>
  hands to \<^verbatim>\<open>fetch_usage\<close> is an error dictionary, not \<^verbatim>\<open>None\<close>.
\<close>

theorem empty_cookie_file_counterexample:
  "fetch_usage_from_api (\<lambda>s. None) True True
     (Completed (get_usage_main (\<lambda>i j. []) (\<lambda>e. []) True (Some []) ''cookies.txt''
                   (\<lambda>h u c. Session [] GotoNone) None False True True))
   = JObj [(''error'', JStr ''System error: Unknown error...'')]"
  by (simp add: fetch_usage_from_api_def get_usage_main_def get_usage_def unlines_def
      strip_def startswith_def error_dict_def)


theorem cookie_parsing_and_empty_file_witness:
  "parse_cookies ''a=1; ; junk; b=2'' ''claude.ai'' =
     [\<lparr>cookie_name = ''a'', cookie_value = ''1'', cookie_domain = ''claude.ai'', cookie_path = ''/''\<rparr>,
      \<lparr>cookie_name = ''b'', cookie_value = ''2'', cookie_domain = ''claude.ai'', cookie_path = ''/''\<rparr>] \<and>
   snd (get_usage True (Some '' '') ''cookies.txt'' (\<lambda>h u c. Session [] GotoNone) None True True)
     = Inr JNull \<and>
   fetch_usage_from_api (\<lambda>s. None) True True
     (Completed (get_usage_main (\<lambda>i j. []) (\<lambda>e. []) True (Some '' '') ''cookies.txt''
                   (\<lambda>h u c. Session [] GotoNone) None False True True))
     = JObj [(''error'', JStr ''System error: Unknown error...'')]"
proof -
  have e: "strip '' '' = []" by (simp add: strip_def isspace_def)
  have sp: "split_cookie_str ''a=1; ; junk; b=2'' = [''a=1'', [], ''junk'', ''b=2'']"
    by (simp add: split_cookie_str_def)
  have st: "strip ''a=1'' = ''a=1''" "strip ''b=2'' = ''b=2''" "strip ''junk'' = ''junk''"
    "strip [] = []" "strip ''a'' = ''a''" "strip ''b'' = ''b''" "strip ''1'' = ''1''" "strip ''2'' = ''2''"
    by (simp_all add: strip_def isspace_def)
  have c: "cookie_of_part ''claude.ai'' ''a=1'' =
      [\<lparr>cookie_name = ''a'', cookie_value = ''1'', cookie_domain = ''claude.ai'', cookie_path = ''/''\<rparr>]"
    "cookie_of_part ''claude.ai'' ''b=2'' =
      [\<lparr>cookie_name = ''b'', cookie_value = ''2'', cookie_domain = ''claude.ai'', cookie_path = ''/''\<rparr>]"
    by (simp_all add: cookie_of_part_def st find_eq_def)
  note t = cookie_parsing_and_empty_file [where cs = "''a=1; ; junk; b=2''" and dmn = "''claude.ai''"
      and cookie_text = "'' ''" and playwright = True and cf_path = "''cookies.txt''"
      and browser = "\<lambda>h u c. Session [] GotoNone" and org_id = None and headless = True
      and quiet = True and json_loads = "\<lambda>s. None" and json_dumps = "\<lambda>i j. []"
      and traceback = "\<lambda>e. []" and no_headless = False and raw = True]
  have 1: "parse_cookies ''a=1; ; junk; b=2'' ''claude.ai'' =
     [\<lparr>cookie_name = ''a'', cookie_value = ''1'', cookie_domain = ''claude.ai'', cookie_path = ''/''\<rparr>,
      \<lparr>cookie_name = ''b'', cookie_value = ''2'', cookie_domain = ''claude.ai'', cookie_path = ''/''\<rparr>]"
    by (subst t [THEN conjunct1]) (simp add: sp st c)
  from t [THEN conjunct2, rule_format, OF e] 1 show ?thesis by simp
qed

section \<open>Expired credentials\<close>

lemma no_ok_response:
  assumes "\<forall>r \<in> set rs. resp_url r = url \<longrightarrow> resp_status r \<noteq> 200"
  shows "foldl (handle_response url) d rs = d"
  using assms by (induction rs arbitrary: d) (auto simp: handle_response_def)

lemma contains_expired: "contains ''Cookie expired (401 Unauthorized)'' ''expired''"
  by simp

lemma get_usage_401:
  assumes "strip cookie_text \<noteq> []"
    and "request_url org_id (strip cookie_text) = Inr url"
    and "browser headless url (parse_cookies (strip cookie_text) ''claude.ai'') = Session rs (GotoResponse 401)"
    and "\<forall>r \<in> set rs. resp_url r = url \<longrightarrow> resp_status r = 401"
  shows "get_usage True (Some cookie_text) cf_path browser org_id headless quiet =
           ([], Inr (error_dict ''Cookie expired (401 Unauthorized)''))"
proof -
  have "\<forall>r \<in> set rs. resp_url r = url \<longrightarrow> resp_status r \<noteq> 200" using assms(4) by auto
  then have "foldl (handle_response url) JNull rs = JNull" by (rule no_ok_response)
  then show ?thesis
    using assms(1-3) by (simp add: get_usage_def Let_def usage_result_def error_dict_def)
qed

text \<open>
  C8: when \<^verbatim>\<open>page.goto\<close> returns a response with status 401 and every response seen
  for the request URL has status 401, \<^verbatim>\<open>get_usage\<close> returns the dictionary with the
  single key \<^verbatim>\<open>error\<close> and the message \<^verbatim>\<open>Cookie expired (401 Unauthorized)\<close>,
  which contains \<^verbatim>\<open>expired\<close>. Run by the indicator (quiet, raw, headless, no
  organisation id), the same dictionary comes out of \<^verbatim>\<open>_fetch_usage_from_api\<close>,
  provided \<^verbatim>\<open>json.loads\<close> reads back what \<^verbatim>\<open>json.dumps\<close> printed.
\<close>

theorem expired_cookie_reported:
  assumes "strip cookie_text \<noteq> []"
    and "request_url org_id (strip cookie_text) = Inr url"
    and "browser headless url (parse_cookies (strip cookie_text) ''claude.ai'') = Session rs (GotoResponse 401)"
    and "\<forall>r \<in> set rs. resp_url r = url \<longrightarrow> resp_status r = 401"
  shows "snd (get_usage True (Some cookie_text) cf_path browser org_id headless quiet) =
           Inr (JObj [(''error'', JStr ''Cookie expired (401 Unauthorized)'')]) \<and>
         contains ''Cookie expired (401 Unauthorized)'' ''expired'' \<and>
         (org_id = None \<and> headless \<and>
          strip (unlines [json_dumps None (JObj [(''error'', JStr ''Cookie expired (401 Unauthorized)'')])]) \<noteq> [] \<and>
          json_loads (unlines [json_dumps None (JObj [(''error'', JStr ''Cookie expired (401 Unauthorized)'')])])
            = Some (JObj [(''error'', JStr ''Cookie expired (401 Unauthorized)'')]) \<longrightarrow>
          fetch_usage_from_api json_loads True True
            (Completed (get_usage_main json_dumps traceback True (Some cookie_text) cf_path browser
                          None False True True))
          = JObj [(''error'', JStr ''Cookie expired (401 Unauthorized)'')])"
proof (intro conjI impI)
  show "snd (get_usage True (Some cookie_text) cf_path browser org_id headless quiet) =
           Inr (JObj [(''error'', JStr ''Cookie expired (401 Unauthorized)'')])"
    by (simp add: error_dict_def
        get_usage_401 [where browser = browser and headless = headless and url = url, OF assms])
  show "contains ''Cookie expired (401 Unauthorized)'' ''expired''" by (rule contains_expired)
next
  let ?E = "JObj [(''error'', JStr ''Cookie expired (401 Unauthorized)'')]"
  assume h: "org_id = None \<and> headless \<and> strip (unlines [json_dumps None ?E]) \<noteq> [] \<and>
             json_loads (unlines [json_dumps None ?E]) = Some ?E"
  have g: "get_usage True (Some cookie_text) cf_path browser None True True = ([], Inr ?E)"
    using get_usage_401 [where browser = browser and headless = headless and url = url
        and cf_path = cf_path and quiet = True, OF assms] h
    by (simp add: error_dict_def)
  have m: "get_usage_main json_dumps traceback True (Some cookie_text) cf_path browser None False True True
             = \<lparr>returncode = 0, stdout = unlines [json_dumps None ?E], stderr = []\<rparr>"
    by (simp add: get_usage_main_def Let_def g unlines_def)
  show "fetch_usage_from_api json_loads True True
            (Completed (get_usage_main json_dumps traceback True (Some cookie_text) cf_path browser
                          None False True True)) = ?E"
    unfolding m using h by (simp add: fetch_usage_from_api_def)
qed


lemma request_url_example:
  "request_url None ''sessionKey=abc; lastActiveOrg=org-1'' =
     Inr ''https://claude.ai/api/organizations/org-1/usage''"
proof -
  have "find_eq ''lastActiveOrg=org-1'' = Some (''lastActiveOrg'', ''org-1'')"
    by (simp add: find_eq_def)
  moreover have "strip ''org-1'' = ''org-1''" by (simp add: strip_def isspace_def)
  ultimately have "find_org [''sessionKey=abc'', ''lastActiveOrg=org-1''] = Inr (Some ''org-1'')"
    by (simp add: strip1 strip2 startswith_def)
  then show ?thesis
    by (simp add: request_url_def resolve_org_id_def split2 usage_url_def)
qed

theorem expired_cookie_reported_witness:
  \<open>let E = JObj [(''error'', JStr ''Cookie expired (401 Unauthorized)'')];
       browser = (\<lambda>h u c. Session [\<lparr>resp_url = u, resp_status = 401, resp_json = None\<rparr>]
                                     (GotoResponse 401));
       json_dumps = (\<lambda>i j. ''{"error": "Cookie expired (401 Unauthorized)"}'');
       json_loads = (\<lambda>s. if s = ''{"error": "Cookie expired (401 Unauthorized)"}'' @ [CHR 0x0A]
                          then Some E else None)
   in snd (get_usage True (Some ''sessionKey=abc; lastActiveOrg=org-1'') ''cookies.txt''
             browser None True True) = Inr E \<and>
      fetch_usage_from_api json_loads True True
        (Completed (get_usage_main json_dumps (\<lambda>e. []) True
           (Some ''sessionKey=abc; lastActiveOrg=org-1'') ''cookies.txt'' browser
           None False True True)) = E\<close>
proof -
  let ?E = "JObj [(''error'', JStr ''Cookie expired (401 Unauthorized)'')]"
  let ?b = "\<lambda>(h::bool) (u::string) (c::cookie list).
              Session [\<lparr>resp_url = u, resp_status = 401, resp_json = None\<rparr>] (GotoResponse 401)"
  let ?jd = \<open>\<lambda>(i::nat option) (j::json). ''{"error": "Cookie expired (401 Unauthorized)"}''\<close>
  let ?jl = \<open>\<lambda>s. if s = ''{"error": "Cookie expired (401 Unauthorized)"}'' @ [CHR 0x0A]
                   then Some ?E else None\<close>
  let ?t = "''sessionKey=abc; lastActiveOrg=org-1''"
  let ?url = "''https://claude.ai/api/organizations/org-1/usage''"
  let ?rs = "[\<lparr>resp_url = ?url, resp_status = 401, resp_json = None\<rparr>]"
  have st: "strip ?t = ?t" by (simp add: strip_def isspace_def)
  have 1: "strip ?t \<noteq> []" by (simp add: st)
  have 2: "request_url None (strip ?t) = Inr ?url" by (simp add: st request_url_example)
  have 3: "?b True ?url (parse_cookies (strip ?t) ''claude.ai'') = Session ?rs (GotoResponse 401)"
    by simp
  have 4: "\<forall>r \<in> set ?rs. resp_url r = ?url \<longrightarrow> resp_status r = 401" by simp
  have 5: "strip (unlines [?jd None ?E]) \<noteq> []"
    by (simp add: unlines_def strip_def isspace_def)
  have 6: "?jl (unlines [?jd None ?E]) = Some ?E" by (simp add: unlines_def)
  note t = expired_cookie_reported [where cookie_text = ?t and org_id = None and url = ?url
      and browser = ?b and headless = True and rs = ?rs and cf_path = "''cookies.txt''"
      and quiet = True and json_dumps = ?jd and json_loads = ?jl and traceback = "\<lambda>e. []",
      OF 1 2 3 4]
  have a: "snd (get_usage True (Some ?t) ''cookies.txt'' ?b None True True) = Inr ?E"
    using t by (rule conjunct1)
  have b: "fetch_usage_from_api ?jl True True
        (Completed (get_usage_main ?jd (\<lambda>e. []) True (Some ?t) ''cookies.txt'' ?b
           None False True True)) = ?E"
    using t [THEN conjunct2, THEN conjunct2, rule_format] 5 6 by blast
  show ?thesis unfolding Let_def using a b by (rule conjI)
qed

end
